theory Spec2Isabelle
  imports Complex_Main "HOL-Library.List_Lexorder" "HOL-Library.AList"
begin

section \<open>Python values\<close>

text \<open>
  The monitor \<^verbatim>\<open>mhag.py\<close> handles two kinds of text. What a subprocess writes is
  \<^verbatim>\<open>bytes\<close>: a list of 8-bit characters. Everything else is a Python \<^verbatim>\<open>str\<close>: a
  list of Unicode code points, here natural numbers. \<open>ustr\<close> turns a literal of the
  program text into a \<^verbatim>\<open>str\<close>.
\<close>

type_synonym bytes = string
type_synonym pystr = "nat list"

abbreviation ustr :: "string \<Rightarrow> pystr" where
  "ustr s \<equiv> map of_char s"

text \<open>The exceptions that the modelled statements can raise.\<close>

datatype error =
  KeyError | IndexError | ValueError | UnicodeDecodeError | OverflowError | UnboundLocalError

text \<open>Sequencing of statements that may raise: the first exception ends the run.\<close>

fun bnd :: "error + 'a \<Rightarrow> ('a \<Rightarrow> error + 'b) \<Rightarrow> error + 'b" where
  "bnd (Inl e) f = Inl e"
| "bnd (Inr x) f = f x"

text \<open>\<^verbatim>\<open>xs[i]\<close> on a list or a tuple raises \<^verbatim>\<open>IndexError\<close> out of range.\<close>

definition idx :: "'a list \<Rightarrow> nat \<Rightarrow> error + 'a" where
  "idx xs i = (if i < length xs then Inr (xs ! i) else Inl IndexError)"

subsection \<open>\<^verbatim>\<open>bytes.decode('utf-8')\<close>\<close>

text \<open>
  The strict UTF-8 decoder: a byte below 128 is itself; a lead byte announces one, two or
  three continuation bytes; overlong forms, surrogates and code points above
  \<^verbatim>\<open>U+10FFFF\<close> are rejected, as is a truncated sequence.
\<close>

definition cont :: "nat \<Rightarrow> bool" where
  "cont b = (128 \<le> b \<and> b < 192)"

fun utf8 :: "nat list \<Rightarrow> pystr option" where
  "utf8 [] = Some []"
| "utf8 (b # bs) =
    (if b < 128 then map_option ((#) b) (utf8 bs)
     else if 194 \<le> b \<and> b < 224 then
       (case bs of
          c1 # r \<Rightarrow>
            if cont c1 then map_option ((#) ((b - 192) * 64 + (c1 - 128))) (utf8 r)
            else None
        | _ \<Rightarrow> None)
     else if 224 \<le> b \<and> b < 240 then
       (case bs of
          c1 # c2 # r \<Rightarrow>
            (let cp = (b - 224) * 4096 + (c1 - 128) * 64 + (c2 - 128)
             in if cont c1 \<and> cont c2 \<and> 2048 \<le> cp \<and> \<not> (55296 \<le> cp \<and> cp < 57344)
                then map_option ((#) cp) (utf8 r) else None)
        | _ \<Rightarrow> None)
     else if 240 \<le> b \<and> b < 245 then
       (case bs of
          c1 # c2 # c3 # r \<Rightarrow>
            (let cp = (b - 240) * 262144 + (c1 - 128) * 4096 + (c2 - 128) * 64 + (c3 - 128)
             in if cont c1 \<and> cont c2 \<and> cont c3 \<and> 65536 \<le> cp \<and> cp < 1114112
                then map_option ((#) cp) (utf8 r) else None)
        | _ \<Rightarrow> None)
     else None)"

definition decode :: "bytes \<Rightarrow> error + pystr" where
  "decode b = (case utf8 (map of_char b) of None \<Rightarrow> Inl UnicodeDecodeError | Some t \<Rightarrow> Inr t)"

subsection \<open>Character classes\<close>

text \<open>
  The patterns are \<^verbatim>\<open>str\<close> patterns, so \<^verbatim>\<open>\s\<close>, \<^verbatim>\<open>\d\<close> and \<^verbatim>\<open>\w\<close> follow
  Python's Unicode database. Below 128 the classes are written out; above, the database
  is a parameter of the model: which code points are white space, which are
  alphanumeric, and which are decimal digits, with their value.
\<close>

record ucd =
  uc_space :: "nat \<Rightarrow> bool"
  uc_alnum :: "nat \<Rightarrow> bool"
  uc_decimal :: "nat \<Rightarrow> nat option"

definition is_space :: "ucd \<Rightarrow> nat \<Rightarrow> bool" where
  "is_space uc c =
     (if c < 128 then (9 \<le> c \<and> c \<le> 13) \<or> (28 \<le> c \<and> c \<le> 32) else uc_space uc c)"

definition is_digit :: "ucd \<Rightarrow> nat \<Rightarrow> bool" where
  "is_digit uc c = (if c < 128 then 48 \<le> c \<and> c \<le> 57 else uc_decimal uc c \<noteq> None)"

definition digit_value :: "ucd \<Rightarrow> nat \<Rightarrow> nat" where
  "digit_value uc c =
     (if c < 128 then c - 48 else (case uc_decimal uc c of Some d \<Rightarrow> d | None \<Rightarrow> 0))"

definition is_word :: "ucd \<Rightarrow> nat \<Rightarrow> bool" where
  "is_word uc c =
     (if c < 128
      then (48 \<le> c \<and> c \<le> 57) \<or> (65 \<le> c \<and> c \<le> 90) \<or> (97 \<le> c \<and> c \<le> 122) \<or> c = 95
      else uc_alnum uc c)"

text \<open>A database that knows no character above 127, for evaluating on ASCII text.\<close>

definition ascii_ucd :: ucd where
  "ascii_ucd = \<lparr>uc_space = (\<lambda>c. False), uc_alnum = (\<lambda>c. False), uc_decimal = (\<lambda>c. None)\<rparr>"

section \<open>The ping summary pattern\<close>

text \<open>
  \<^verbatim>\<open>token_specification\<close> lists six patterns, joined with \<^verbatim>\<open>|\<close> inside one outer
  group. Each is a sequence of literals, of one-or-others repetitions of a class, and of
  capture groups. In every pattern a repetition is followed by a character outside its
  class or ends the pattern, so the longest run is the only one a backtracking matcher
  can succeed with; the flags \<^verbatim>\<open>VERBOSE\<close>, \<^verbatim>\<open>UNICODE\<close> and \<^verbatim>\<open>MULTILINE\<close> change nothing
  for patterns without blanks, comments and anchors.
\<close>

datatype cls = Space | Digit | HostChar

definition in_cls :: "ucd \<Rightarrow> cls \<Rightarrow> nat \<Rightarrow> bool" where
  "in_cls uc k c =
     (case k of
        Space \<Rightarrow> is_space uc c
      | Digit \<Rightarrow> is_digit uc c
      | HostChar \<Rightarrow> is_word uc c \<or> c = 45 \<or> c = 46)"

datatype item = Lit pystr | Plus cls | Group "item list"

definition dotted :: "item list" where
  "dotted = [Plus Digit, Lit (ustr ''.''), Plus Digit]"

definition token_specification :: "item list list" where
  "token_specification =
     [ [Lit (ustr ''PING''), Plus Space, Group [Plus HostChar], Plus Space, Lit (ustr ''('')],
       [Group [Plus Digit, Lit (ustr ''.''), Plus Digit, Lit (ustr ''.''),
               Plus Digit, Lit (ustr ''.''), Plus Digit]],
       [Group [Plus Digit], Plus Space, Lit (ustr ''packets''), Plus Space,
        Lit (ustr ''transmitted,'')],
       [Group [Plus Digit], Plus Space, Lit (ustr ''received,'')],
       [Group [Plus Digit], Lit (ustr ''%''), Plus Space, Lit (ustr ''packet''), Plus Space,
        Lit (ustr ''loss,'')],
       [Group dotted, Lit (ustr ''/''), Group dotted, Lit (ustr ''/''), Group dotted,
        Lit (ustr ''/''), Group dotted] ]"

text \<open>
  Matching a sequence at the start of a text gives the captures of its groups, in the
  order the groups open, and the number of characters matched.
\<close>

fun starts_with :: "pystr \<Rightarrow> pystr \<Rightarrow> bool" where
  "starts_with [] s = True"
| "starts_with (p # ps) [] = False"
| "starts_with (p # ps) (c # cs) = (p = c \<and> starts_with ps cs)"

definition longer :: "nat \<Rightarrow> (pystr list \<times> nat) option \<Rightarrow> (pystr list \<times> nat) option" where
  "longer k r = (case r of None \<Rightarrow> None | Some (caps, n) \<Rightarrow> Some (caps, k + n))"

fun match_seq :: "ucd \<Rightarrow> item list \<Rightarrow> pystr \<Rightarrow> (pystr list \<times> nat) option" where
  "match_seq uc [] s = Some ([], 0)"
| "match_seq uc (Lit l # its) s =
     (if starts_with l s then longer (length l) (match_seq uc its (drop (length l) s))
      else None)"
| "match_seq uc (Plus k # its) s =
     (case takeWhile (in_cls uc k) s of
        [] \<Rightarrow> None
      | c # run \<Rightarrow> longer (Suc (length run)) (match_seq uc its (drop (Suc (length run)) s)))"
| "match_seq uc (Group g # its) s =
     (case match_seq uc g s of
        None \<Rightarrow> None
      | Some (inner, n) \<Rightarrow>
          (case match_seq uc its (drop n s) of
             None \<Rightarrow> None
           | Some (later, n') \<Rightarrow> Some (take n s # inner @ later, n + n')))"

fun ngroups :: "item list \<Rightarrow> nat" where
  "ngroups [] = 0"
| "ngroups (Lit l # its) = ngroups its"
| "ngroups (Plus k # its) = ngroups its"
| "ngroups (Group g # its) = Suc (ngroups g + ngroups its)"

text \<open>
  The alternatives are tried in order. A group of an alternative that did not take part
  in the match is reported as the empty string.
\<close>

fun match_alts :: "ucd \<Rightarrow> item list list \<Rightarrow> pystr \<Rightarrow> (pystr list \<times> nat) option" where
  "match_alts uc [] s = None"
| "match_alts uc (a # alts) s =
     (case match_seq uc a s of
        Some (caps, n) \<Rightarrow> Some (caps @ replicate (sum_list (map ngroups alts)) [], n)
      | None \<Rightarrow>
          (case match_alts uc alts s of
             None \<Rightarrow> None
           | Some (caps, n) \<Rightarrow> Some (replicate (ngroups a) [] @ caps, n)))"

text \<open>
  \<^verbatim>\<open>tokens_re\<close> at the start of a text: the tuple of its ten groups, the outer group
  first, and the number of characters matched.
\<close>

definition tokens_re :: "ucd \<Rightarrow> pystr \<Rightarrow> (pystr list \<times> nat) option" where
  "tokens_re uc s =
     (case match_alts uc token_specification s of
        None \<Rightarrow> None
      | Some (caps, n) \<Rightarrow> Some (take n s # caps, n))"

text \<open>
  \<^verbatim>\<open>findall\<close> scans from the left. After a match of \<open>n\<close> characters the scan resumes
  behind it: the next \<open>n - 1\<close> positions are skipped. No pattern matches the empty string.
\<close>

fun scan :: "ucd \<Rightarrow> nat \<Rightarrow> pystr \<Rightarrow> pystr list list" where
  "scan uc skip [] = []"
| "scan uc skip (c # cs) =
     (if 0 < skip then scan uc (skip - 1) cs
      else (case tokens_re uc (c # cs) of
              None \<Rightarrow> scan uc 0 cs
            | Some (groups, n) \<Rightarrow> groups # scan uc (n - 1) cs))"

definition findall :: "ucd \<Rightarrow> pystr \<Rightarrow> pystr list list" where
  "findall uc s = scan uc 0 s"

text \<open>\<^verbatim>\<open>needle in s\<close> for strings.\<close>

fun contains :: "pystr \<Rightarrow> pystr \<Rightarrow> bool" where
  "contains needle [] = (needle = [])"
| "contains needle (c # cs) = (starts_with needle (c # cs) \<or> contains needle cs)"

section \<open>Numbers\<close>

subsection \<open>\<^verbatim>\<open>int(s)\<close> and \<^verbatim>\<open>str(n)\<close>\<close>

text \<open>
  \<^verbatim>\<open>int\<close> of a string first maps every character above 127 to ASCII: white space to a
  blank, a decimal digit to its ASCII digit, anything else to a question mark. It then
  reads optional white space, an optional sign, digits that single underscores may
  separate, and optional white space up to the end.
\<close>

definition int_ascii :: "ucd \<Rightarrow> nat \<Rightarrow> nat" where
  "int_ascii uc c =
     (if c < 128 then c
      else if uc_space uc c then 32
      else (case uc_decimal uc c of Some d \<Rightarrow> 48 + d | None \<Rightarrow> 63))"

definition c_space :: "nat \<Rightarrow> bool" where
  "c_space c = ((9 \<le> c \<and> c \<le> 13) \<or> c = 32)"

definition c_digit :: "nat \<Rightarrow> bool" where
  "c_digit c = (48 \<le> c \<and> c \<le> 57)"

fun int_digits :: "nat \<Rightarrow> pystr \<Rightarrow> nat option" where
  "int_digits acc [] = Some acc"
| "int_digits acc (c # cs) =
     (if c_digit c then int_digits (10 * acc + (c - 48)) cs
      else if c = 95 then
        (case cs of
           [] \<Rightarrow> None
         | d # r \<Rightarrow> if c_digit d then int_digits (10 * acc + (d - 48)) r else None)
      else if list_all c_space (c # cs) then Some acc
      else None)"

definition int_unsigned :: "pystr \<Rightarrow> nat option" where
  "int_unsigned s =
     (case s of
        [] \<Rightarrow> None
      | d # r \<Rightarrow> if c_digit d then int_digits (d - 48) r else None)"

definition py_int :: "ucd \<Rightarrow> pystr \<Rightarrow> error + int" where
  "py_int uc s =
     (case dropWhile c_space (map (int_ascii uc) s) of
        [] \<Rightarrow> Inl ValueError
      | c # cs \<Rightarrow>
          (if c = 45 then
             (case int_unsigned cs of None \<Rightarrow> Inl ValueError | Some n \<Rightarrow> Inr (- int n))
           else if c = 43 then
             (case int_unsigned cs of None \<Rightarrow> Inl ValueError | Some n \<Rightarrow> Inr (int n))
           else
             (case int_unsigned (c # cs) of None \<Rightarrow> Inl ValueError | Some n \<Rightarrow> Inr (int n))))"

fun str_nat :: "nat \<Rightarrow> pystr" where
  "str_nat n = (if n < 10 then [48 + n] else str_nat (n div 10) @ [48 + n mod 10])"

declare str_nat.simps [simp del]

definition str_int :: "int \<Rightarrow> pystr" where
  "str_int i = (if i < 0 then 45 # str_nat (nat (- i)) else str_nat (nat i))"

subsection \<open>\<^verbatim>\<open>float\<close> and \<^verbatim>\<open>round\<close>\<close>

text \<open>
  A Python \<^verbatim>\<open>float\<close> is an IEEE binary64 number. Only values that are not negative
  occur: \<open>Finite a b\<close> is the fraction \<open>a / b\<close>, and there is infinity. Conversion from an
  exact fraction rounds to the nearest number with a 53-bit significand, ties to the
  even one; the exponent does not go below that of the subnormal numbers; a result of
  \<open>2 ^ 1024\<close> or others is infinity. All of it is integer arithmetic.
\<close>

datatype pyfloat = Finite nat nat | Infinity

definition float_value :: "nat \<Rightarrow> nat \<Rightarrow> rat" where
  "float_value a b = of_nat a / of_nat b"

text \<open>The integer nearest to \<open>a / b\<close>, the even one when two are equally near.\<close>

definition round_half_even :: "nat \<Rightarrow> nat \<Rightarrow> nat" where
  "round_half_even a b =
     (if 2 * (a mod b) < b then a div b
      else if b < 2 * (a mod b) then a div b + 1
      else if even (a div b) then a div b
      else a div b + 1)"

text \<open>
  The exponent \<open>e\<close> with \<open>2 ^ e \<le> a / b < 2 ^ (e + 1)\<close>, for a positive fraction: that of
  its integer part from \<open>1\<close> on, and below \<open>1\<close> the negated least \<open>k\<close> with
  \<open>b / a \<le> 2 ^ k\<close>.
\<close>

fun log2_floor :: "nat \<Rightarrow> nat" where
  "log2_floor n = (if n < 2 then 0 else Suc (log2_floor (n div 2)))"

declare log2_floor.simps [simp del]

definition log2_ceil :: "nat \<Rightarrow> nat" where
  "log2_ceil n = (if n < 2 then 0 else Suc (log2_floor (n - 1)))"

definition ilog2 :: "nat \<Rightarrow> nat \<Rightarrow> int" where
  "ilog2 a b =
     (if b \<le> a then int (log2_floor (a div b)) else - int (log2_ceil ((b + a - 1) div a)))"

definition overflow :: "nat \<Rightarrow> nat \<Rightarrow> pyfloat" where
  "overflow m d = (if 2 ^ 1024 * d \<le> m then Infinity else Finite m d)"

text \<open>Rounding \<open>a / b\<close> to a multiple of \<open>2 ^ p\<close>.\<close>

definition round_at :: "int \<Rightarrow> nat \<Rightarrow> nat \<Rightarrow> pyfloat" where
  "round_at p a b =
     (if 0 \<le> p then overflow (round_half_even a (b * 2 ^ nat p) * 2 ^ nat p) 1
      else overflow (round_half_even (a * 2 ^ nat (- p)) b) (2 ^ nat (- p)))"

definition to_double :: "nat \<Rightarrow> nat \<Rightarrow> pyfloat" where
  "to_double a b =
     (if a = 0 then Finite 0 1 else round_at (max (ilog2 a b - 52) (- 1074)) a b)"

text \<open>
  \<^verbatim>\<open>float(s)\<close> is applied to a capture of the sixth pattern, digits around one dot, or
  to the empty string of a group that took no part; any other string is not a number of
  that form and is rejected here.
\<close>

fun digits_value :: "ucd \<Rightarrow> nat \<Rightarrow> pystr \<Rightarrow> nat" where
  "digits_value uc acc [] = acc"
| "digits_value uc acc (c # cs) = digits_value uc (10 * acc + digit_value uc c) cs"

definition py_float :: "ucd \<Rightarrow> pystr \<Rightarrow> error + pyfloat" where
  "py_float uc s =
     (case dropWhile (is_digit uc) s of
        [] \<Rightarrow> Inl ValueError
      | c # fdigits \<Rightarrow>
          if c = 46 \<and> takeWhile (is_digit uc) s \<noteq> [] \<and> fdigits \<noteq> []
             \<and> list_all (is_digit uc) fdigits
          then Inr (to_double (digits_value uc 0 (takeWhile (is_digit uc) s @ fdigits))
                      (10 ^ length fdigits))
          else Inl ValueError)"

text \<open>\<^verbatim>\<open>round(x)\<close> gives the nearest integer, the even one at a tie; infinity raises.\<close>

definition py_round :: "pyfloat \<Rightarrow> error + int" where
  "py_round x =
     (case x of Finite a b \<Rightarrow> Inr (int (round_half_even a b)) | Infinity \<Rightarrow> Inl OverflowError)"

section \<open>Dictionaries\<close>

text \<open>
  A \<^verbatim>\<open>dict\<close> is an association list with distinct keys in insertion order: assigning
  to a present key keeps its place, a new key goes to the end. A Target's entry maps
  field names to strings; \<^verbatim>\<open>cfg_dict\<close> and \<^verbatim>\<open>pol_dict\<close> map Target names to entries.
\<close>

type_synonym entry = "(pystr \<times> pystr) list"
type_synonym targets = "(pystr \<times> entry) list"

definition getitem :: "('k \<times> 'v) list \<Rightarrow> 'k \<Rightarrow> error + 'v" where
  "getitem d k = (case map_of d k of None \<Rightarrow> Inl KeyError | Some v \<Rightarrow> Inr v)"

fun dict_update :: "('k \<times> 'v) list \<Rightarrow> ('k \<times> 'v) list \<Rightarrow> ('k \<times> 'v) list" where
  "dict_update d [] = d"
| "dict_update d ((k, v) # kvs) = dict_update (AList.update k v d) kvs"

text \<open>\<^verbatim>\<open>dic[key].update({...})\<close> and \<^verbatim>\<open>dic[key][field]\<close>.\<close>

definition entry_update :: "targets \<Rightarrow> pystr \<Rightarrow> entry \<Rightarrow> error + targets" where
  "entry_update dic key kvs =
     bnd (getitem dic key) (\<lambda>e. Inr (AList.update key (dict_update e kvs) dic))"

definition field :: "targets \<Rightarrow> pystr \<Rightarrow> pystr \<Rightarrow> error + pystr" where
  "field dic key f = bnd (getitem dic key) (\<lambda>e. getitem e f)"

section \<open>The probe result parser\<close>

text \<open>The sample of a probe that failed, lines 321 to 324 and again 366 to 369.\<close>

definition unknown_sample :: "pystr \<Rightarrow> entry" where
  "unknown_sample STR_DATETIME =
     [(ustr ''IP'', ustr ''UNKNOWN''), (ustr ''TX'', ustr ''UNKNOWN''),
      (ustr ''RX'', ustr ''UNKNOWN''), (ustr ''AVAIL'', ustr ''0''),
      (ustr ''LASTFAIL'', STR_DATETIME), (ustr ''MINRTT'', ustr ''UNKNOWN''),
      (ustr ''AVGRTT'', ustr ''UNKNOWN''), (ustr ''MAXRTT'', ustr ''UNKNOWN''),
      (ustr ''MDEV'', ustr ''UNKNOWN'')]"

text \<open>\<^verbatim>\<open>match[i][j]\<close> and \<^verbatim>\<open>str(round(float(match[i][j])))\<close>.\<close>

definition group_at :: "pystr list list \<Rightarrow> nat \<Rightarrow> nat \<Rightarrow> error + pystr" where
  "group_at match i j = bnd (idx match i) (\<lambda>t. idx t j)"

definition rounded :: "ucd \<Rightarrow> pystr list list \<Rightarrow> nat \<Rightarrow> nat \<Rightarrow> error + pystr" where
  "rounded uc match i j =
     bnd (group_at match i j) (\<lambda>s.
     bnd (py_float uc s) (\<lambda>x.
     bnd (py_round x) (\<lambda>n. Inr (str_int n))))"

text \<open>
  \<^verbatim>\<open>parse_ping(poldic, key, out, err)\<close>. Both streams are decoded for the debug trace
  before anything else: the arguments of \<^verbatim>\<open>dbug\<close> are evaluated whether or not it
  prints. Then comes the \<^verbatim>\<open>if err: ... elif 'PING' in ...:\<close> chain, which has no
  final \<^verbatim>\<open>else\<close>.
\<close>

definition parse_ping ::
  "ucd \<Rightarrow> pystr \<Rightarrow> targets \<Rightarrow> pystr \<Rightarrow> bytes \<Rightarrow> bytes \<Rightarrow> error + targets" where
  "parse_ping uc STR_DATETIME poldic key out err =
     bnd (decode out) (\<lambda>text.
     bnd (decode err) (\<lambda>errors.
       if err \<noteq> [] then entry_update poldic key (unknown_sample STR_DATETIME)
       else if contains (ustr ''PING'') text then
         (let match = findall uc text
          in if match \<noteq> [] then
               bnd (getitem poldic key) (\<lambda>e.
               bnd (group_at match 1 2) (\<lambda>ip.
               bnd (group_at match 2 3) (\<lambda>tx.
               bnd (group_at match 3 4) (\<lambda>rx.
               bnd (entry_update poldic key
                      [(ustr ''IP'', ip), (ustr ''TX'', tx), (ustr ''RX'', rx)]) (\<lambda>poldic.
               bnd (group_at match 4 5) (\<lambda>loss.
               bnd (py_int uc loss) (\<lambda>n.
               bnd (entry_update poldic key [(ustr ''AVAIL'', str_int (100 - n))]) (\<lambda>poldic.
               bnd (field poldic key (ustr ''AVAIL'')) (\<lambda>avail.
                 if avail = ustr ''0'' then
                   entry_update poldic key
                     [(ustr ''MINRTT'', ustr ''UNKNOWN''), (ustr ''AVGRTT'', ustr ''UNKNOWN''),
                      (ustr ''MAXRTT'', ustr ''UNKNOWN''), (ustr ''MDEV'', ustr ''UNKNOWN''),
                      (ustr ''LASTFAIL'', STR_DATETIME)]
                 else
                   bnd (rounded uc match 5 6) (\<lambda>minrtt.
                   bnd (rounded uc match 5 7) (\<lambda>avgrtt.
                   bnd (rounded uc match 5 8) (\<lambda>maxrtt.
                   bnd (rounded uc match 5 9) (\<lambda>mdev.
                     entry_update poldic key
                       [(ustr ''MINRTT'', minrtt), (ustr ''AVGRTT'', avgrtt),
                        (ustr ''MAXRTT'', maxrtt), (ustr ''MDEV'', mdev)])))))))))))))
             else entry_update poldic key (unknown_sample STR_DATETIME))
       else Inr poldic))"

section \<open>The time-series update command\<close>

text \<open>\<^verbatim>\<open>s.replace(old, new)\<close> for a non-empty \<open>old\<close>: every occurrence, from the left.\<close>

fun replacing :: "pystr \<Rightarrow> pystr \<Rightarrow> nat \<Rightarrow> pystr \<Rightarrow> pystr" where
  "replacing old new skip [] = []"
| "replacing old new skip (c # cs) =
     (if 0 < skip then replacing old new (skip - 1) cs
      else if starts_with old (c # cs) then new @ replacing old new (length old - 1) cs
      else c # replacing old new 0 cs)"

definition replace :: "pystr \<Rightarrow> pystr \<Rightarrow> pystr \<Rightarrow> pystr" where
  "replace old new s = replacing old new 0 s"

text \<open>
  \<^verbatim>\<open>re.sub(r":$", rep, s)\<close>: \<^verbatim>\<open>$\<close> is the end of the string, or the place before a
  newline that ends it.
\<close>

definition ends_with :: "pystr \<Rightarrow> pystr \<Rightarrow> bool" where
  "ends_with suffix s = starts_with (rev suffix) (rev s)"

definition sub_colon_end :: "pystr \<Rightarrow> pystr \<Rightarrow> pystr" where
  "sub_colon_end rep s =
     (if ends_with (ustr '':'') s then take (length s - 1) s @ rep
      else if ends_with [58, 10] s then take (length s - 2) s @ rep @ [10]
      else s)"

definition RRDTOOL :: pystr where
  "RRDTOOL = ustr ''/usr/bin/rrdtool''"

text \<open>The two loops of \<^verbatim>\<open>update_database\<close> over the sorted Target names.\<close>

fun template :: "pystr list \<Rightarrow> pystr" where
  "template [] = []"
| "template (target # others) =
     target @ ustr ''-AVRTT:'' @ target @ ustr ''-AVAIL:'' @ template others"

fun samples :: "targets \<Rightarrow> pystr list \<Rightarrow> error + pystr" where
  "samples poldic [] = Inr []"
| "samples poldic (target # others) =
     bnd (field poldic target (ustr ''AVGRTT'')) (\<lambda>avgrtt.
     bnd (field poldic target (ustr ''AVAIL'')) (\<lambda>avail.
     bnd (samples poldic others) (\<lambda>rest.
       Inr (avgrtt @ ustr '':'' @ avail @ ustr '':'' @ rest))))"

text \<open>
  \<^verbatim>\<open>update_database(poldic)\<close> gives the command it runs. \<open>cfgfile\<close> is \<^verbatim>\<open>ARGS.cfgfile\<close>
  at that time, the data directory included. Whether the tool succeeds is an input: its
  failure is caught, but the handler reads \<^verbatim>\<open>output\<close>, which the failed call never
  bound.
\<close>

definition update_database :: "pystr \<Rightarrow> pystr \<Rightarrow> bool \<Rightarrow> targets \<Rightarrow> error + pystr" where
  "update_database cfgfile STR_EPOCTIME tool_ok poldic =
     (let cmd = RRDTOOL @ ustr '' update '' @ replace (ustr ''json'') (ustr ''rrd'') cfgfile
                  @ ustr '' --template '';
          cmd = cmd @ template (sort (map fst poldic));
          cmd = sub_colon_end (ustr '' '') cmd;
          cmd = cmd @ STR_EPOCTIME @ ustr '':''
      in bnd (samples poldic (sort (map fst poldic))) (\<lambda>values.
           let cmd = sub_colon_end [] (cmd @ values)
           in if tool_ok then Inr cmd else Inl UnboundLocalError))"

section \<open>Probing the Targets\<close>

text \<open>
  What the external tools give in one run: for each Target the captured standard output
  and standard error of its probe, and whether each call of the database tool succeeds.
\<close>

record tools =
  probe :: "pystr \<Rightarrow> bytes \<times> bytes"
  info_ok :: bool
  create_ok :: bool
  update_ok :: bool

text \<open>
  The first loop of \<^verbatim>\<open>ping_hosts\<close> builds each command from \<^verbatim>\<open>COUNT\<close> and \<^verbatim>\<open>FQDN\<close>
  and stores the process under \<^verbatim>\<open>PID\<close>; the process object is not a string and is
  written as the empty string, which the third loop stores there anyway.
\<close>

fun launch :: "targets \<Rightarrow> pystr list \<Rightarrow> error + targets" where
  "launch poldic [] = Inr poldic"
| "launch poldic (target # others) =
     bnd (field poldic target (ustr ''COUNT'')) (\<lambda>count.
     bnd (field poldic target (ustr ''FQDN'')) (\<lambda>fqdn.
     bnd (entry_update poldic target [(ustr ''PID'', [])]) (\<lambda>poldic.
       launch poldic others)))"

text \<open>
  The third loop: parse the probe's output into \<^verbatim>\<open>poldic\<close>, set \<^verbatim>\<open>LASTPOLL\<close> in
  \<^verbatim>\<open>cfgdic\<close>, clear \<^verbatim>\<open>PID\<close>, delete \<^verbatim>\<open>UPTIME\<close> from \<^verbatim>\<open>poldic\<close> if it is there, and
  read \<^verbatim>\<open>LASTFAIL\<close> and \<^verbatim>\<open>LASTPOLL\<close> of \<^verbatim>\<open>cfgdic\<close> for the debug trace.
\<close>

fun collect ::
  "ucd \<Rightarrow> pystr \<Rightarrow> (pystr \<Rightarrow> bytes \<times> bytes) \<Rightarrow> targets \<Rightarrow> targets \<Rightarrow> pystr list
     \<Rightarrow> error + targets \<times> targets" where
  "collect uc STR_DATETIME outputs cfgdic poldic [] = Inr (cfgdic, poldic)"
| "collect uc STR_DATETIME outputs cfgdic poldic (target # others) =
     bnd (parse_ping uc STR_DATETIME poldic target
            (fst (outputs target)) (snd (outputs target))) (\<lambda>poldic.
     bnd (entry_update cfgdic target [(ustr ''LASTPOLL'', STR_DATETIME)]) (\<lambda>cfgdic.
     bnd (entry_update poldic target [(ustr ''PID'', [])]) (\<lambda>poldic.
     bnd (getitem poldic target) (\<lambda>e.
     bnd (field cfgdic target (ustr ''LASTFAIL'')) (\<lambda>lastfail.
     bnd (field cfgdic target (ustr ''LASTPOLL'')) (\<lambda>lastpoll.
       collect uc STR_DATETIME outputs cfgdic
         (AList.update target (AList.delete (ustr ''UPTIME'') e) poldic) others))))))"

definition ping_hosts ::
  "ucd \<Rightarrow> pystr \<Rightarrow> (pystr \<Rightarrow> bytes \<times> bytes) \<Rightarrow> targets \<Rightarrow> targets
     \<Rightarrow> error + targets \<times> targets" where
  "ping_hosts uc STR_DATETIME outputs cfgdic poldic =
     bnd (launch poldic (sort (map fst poldic))) (\<lambda>poldic.
       collect uc STR_DATETIME outputs cfgdic poldic (sort (map fst poldic)))"

section \<open>The uptime string\<close>

text \<open>
  The clock of the library is an input. \<open>strptime\<close> reads a \<^verbatim>\<open>LASTFAIL\<close> string in the
  format \<^verbatim>\<open>%Y-%m-%d %H:%M:%S.%f\<close> as a count of microseconds, or fails;
  \<open>time_of_day\<close> is \<^verbatim>\<open>datetime.now().strftime("%H:%M:%S")\<close> when a Target's string is
  begun and \<open>now_us\<close> is the second \<^verbatim>\<open>datetime.now()\<close>, from which the elapsed time is
  taken.
\<close>

record clock =
  strptime :: "pystr \<Rightarrow> int option"
  time_of_day :: "pystr \<Rightarrow> pystr"
  now_us :: "pystr \<Rightarrow> int"

text \<open>
  \<^verbatim>\<open>total_seconds()\<close> divides the microseconds by \<open>10 ^ 6\<close> into a float. The three
  \<^verbatim>\<open>divmod\<close> calls are exact on it: the remainder of a float division is exact, and the
  quotients are whole numbers far below \<open>2 ^ 53\<close> for any difference of two dates. Each
  unit is shown when its value is positive; \<^verbatim>\<open>round\<close> leaves the whole-numbered units
  as they are and rounds the seconds.
\<close>

definition unit_text :: "nat \<Rightarrow> string \<Rightarrow> pystr" where
  "unit_text n name = (if 0 < n then str_nat n @ ustr name else [])"

definition uptime_units :: "nat \<Rightarrow> nat \<Rightarrow> pystr" where
  "uptime_units a b =
     (let mins = a div (60 * b);
          secs_a = a mod (60 * b);
          hours = mins div 60;
          mins = mins mod 60;
          days = hours div 12;
          hours = hours mod 12
      in unit_text days '' days, '' @ unit_text hours '' hours, ''
           @ unit_text mins '' minutes, ''
           @ (if 0 < secs_a then str_nat (round_half_even secs_a b) @ ustr '' seconds'' else [])
           @ ustr ''.'')"

definition uptime_text :: "nat \<Rightarrow> error + pystr" where
  "uptime_text delta_us =
     (case to_double delta_us 1000000 of
        Infinity \<Rightarrow> Inl OverflowError
      | Finite a b \<Rightarrow> Inr (uptime_units a b))"

fun calc_uptime_loop :: "clock \<Rightarrow> targets \<Rightarrow> pystr list \<Rightarrow> error + targets" where
  "calc_uptime_loop clk cfgdic [] = Inr cfgdic"
| "calc_uptime_loop clk cfgdic (target # others) =
     bnd (field cfgdic target (ustr ''LASTFAIL'')) (\<lambda>s.
     bnd (case strptime clk s of None \<Rightarrow> Inl ValueError | Some t \<Rightarrow> Inr t) (\<lambda>lastfail.
     bnd (uptime_text (nat \<bar>now_us clk target - lastfail\<bar>)) (\<lambda>units.
     bnd (entry_update cfgdic target
            [(ustr ''UPTIME'',
              time_of_day clk target @ ustr '' UP (since last ping fail) for '' @ units)])
       (\<lambda>cfgdic. calc_uptime_loop clk cfgdic others))))"

definition calc_uptime :: "clock \<Rightarrow> targets \<Rightarrow> error + targets" where
  "calc_uptime clk cfgdic = calc_uptime_loop clk cfgdic (sort (map fst cfgdic))"

section \<open>The configuration file\<close>

text \<open>
  The file holds a JSON array of two objects, the Targets and the Graph Interval
  Definitions, each an object of objects of strings. \<^verbatim>\<open>json.dumps\<close> and \<^verbatim>\<open>json.load\<close>
  belong to the library and are taken as inverse to each other on such values, so a
  file is modelled by the value it holds; \<open>None\<close> is a file that does not exist.
\<close>

type_synonym document = "targets list"

definition default_targets :: "pystr \<Rightarrow> targets" where
  "default_targets STR_DATETIME =
     [(ustr ''Cloudflare'',
       [(ustr ''FQDN'', ustr ''one.one.one.one''), (ustr ''COUNT'', ustr ''5''),
        (ustr ''LASTFAIL'', STR_DATETIME)]),
      (ustr ''Google'',
       [(ustr ''FQDN'', ustr ''google-public-dns-a.google.com''), (ustr ''COUNT'', ustr ''5''),
        (ustr ''LASTFAIL'', STR_DATETIME)]),
      (ustr ''OpenDNS'',
       [(ustr ''FQDN'', ustr ''resolver1.opendns.com''), (ustr ''COUNT'', ustr ''5''),
        (ustr ''LASTFAIL'', STR_DATETIME)])]"

definition graph_interval :: "string \<Rightarrow> string \<Rightarrow> string \<Rightarrow> string \<Rightarrow> string \<Rightarrow> entry" where
  "graph_interval rra interval duration step xgrid =
     [(ustr ''rra'', ustr rra), (ustr ''interval'', ustr interval),
      (ustr ''duration'', ustr duration), (ustr ''step'', ustr step),
      (ustr ''xgrid'', ustr xgrid)]"

definition default_graphs :: targets where
  "default_graphs =
     [(ustr ''1mx12h'', graph_interval ''LAST'' ''1m'' ''12h'' ''60'' ''MINUTE:5:MINUTE:15:HOUR:2''),
      (ustr ''5mx24h'',
       graph_interval ''AVERAGE'' ''5m'' ''24h'' ''300'' ''MINUTE:5:MINUTE:15:HOUR:4''),
      (ustr ''30mx7d'',
       graph_interval ''AVERAGE'' ''30m'' ''7d'' ''1800'' ''MINUTE:30:HOUR:4:HOUR:24''),
      (ustr ''2hx28d'', graph_interval ''AVERAGE'' ''2h'' ''28d'' ''7200'' ''HOUR:2:DAY:1:DAY:7''),
      (ustr ''1dx365d'',
       graph_interval ''AVERAGE'' ''1d'' ''365d'' ''86400'' ''HOUR:24:DAY:7:DAY:30'')]"

text \<open>
  \<^verbatim>\<open>OrderedDict(sorted(gfx_dict.items(), key=lambda x: int(x[1]['step'])))\<close>: the key
  of every item is computed first, and the sort is stable.
\<close>

definition step_of :: "ucd \<Rightarrow> pystr \<times> entry \<Rightarrow> error + int" where
  "step_of uc x = bnd (getitem (snd x) (ustr ''step'')) (py_int uc)"

fun step_keys :: "ucd \<Rightarrow> targets \<Rightarrow> error + int list" where
  "step_keys uc [] = Inr []"
| "step_keys uc (x # xs) =
     bnd (step_of uc x) (\<lambda>k. bnd (step_keys uc xs) (\<lambda>ks. Inr (k # ks)))"

definition gfxprm_sort :: "ucd \<Rightarrow> targets \<Rightarrow> error + targets" where
  "gfxprm_sort uc gfxdic =
     bnd (step_keys uc gfxdic) (\<lambda>ks. Inr (map snd (sort_key fst (zip ks gfxdic))))"

text \<open>What \<^verbatim>\<open>main\<close> and \<^verbatim>\<open>read_config\<close> write: the Targets and the sorted definitions.\<close>

definition write_config :: "ucd \<Rightarrow> targets \<Rightarrow> targets \<Rightarrow> error + document" where
  "write_config uc cfgdic gfxdic = bnd (gfxprm_sort uc gfxdic) (\<lambda>sorted_gfx. Inr [cfgdic, sorted_gfx])"

text \<open>Lines 159 to 163: load the file and update the two empty dictionaries from it.\<close>

definition load_config :: "document \<Rightarrow> error + targets \<times> targets" where
  "load_config listofdic =
     bnd (idx listofdic 0) (\<lambda>first.
     bnd (idx listofdic 1) (\<lambda>second.
       Inr (dict_update [] first, dict_update [] second)))"

text \<open>
  \<^verbatim>\<open>read_config\<close> gives the two dictionaries and the file as it leaves it. A missing
  file gives the default Targets; an empty set of definitions, read or not, is replaced
  by the default ones; in both cases the file is written.
\<close>

definition read_config ::
  "ucd \<Rightarrow> pystr \<Rightarrow> document option \<Rightarrow> error + targets \<times> targets \<times> document option" where
  "read_config uc STR_DATETIME file =
     bnd (case file of
            Some listofdic \<Rightarrow> bnd (load_config listofdic) (\<lambda>(c, g). Inr (c, g, False))
          | None \<Rightarrow> Inr (default_targets STR_DATETIME, [], True))
       (\<lambda>(cfgdic, gfxdic, need2write).
          let need2write = (need2write \<or> gfxdic = []);
              gfxdic = (if gfxdic = [] then default_graphs else gfxdic)
          in if need2write
             then bnd (write_config uc cfgdic gfxdic) (\<lambda>doc. Inr (cfgdic, gfxdic, Some doc))
             else Inr (cfgdic, gfxdic, file))"

section \<open>One run\<close>

text \<open>
  \<^verbatim>\<open>verify_rrd\<close> changes no dictionary. When the database cannot be read it is created;
  when that fails as well, the handler reads the unbound \<^verbatim>\<open>output\<close>.
\<close>

definition verify_rrd :: "tools \<Rightarrow> error + unit" where
  "verify_rrd t =
     (if info_ok t then Inr () else if create_ok t then Inr () else Inl UnboundLocalError)"

text \<open>
  \<^verbatim>\<open>main\<close> from reading the configuration to writing it back, lines 115 to 136. The
  polling dictionary starts as a deep copy of the configuration. The result is the
  file as written and the polling dictionary.
\<close>

definition poll_and_save ::
  "ucd \<Rightarrow> pystr \<Rightarrow> clock \<Rightarrow> tools \<Rightarrow> document option \<Rightarrow> error + document \<times> targets" where
  "poll_and_save uc STR_DATETIME clk t file =
     bnd (read_config uc STR_DATETIME file) (\<lambda>(cfg_dict, gfx_dict, file).
     bnd (verify_rrd t) (\<lambda>u.
     bnd (ping_hosts uc STR_DATETIME (probe t) cfg_dict cfg_dict) (\<lambda>(cfg_dict, pol_dict).
     bnd (calc_uptime clk cfg_dict) (\<lambda>cfg_dict.
     bnd (write_config uc cfg_dict gfx_dict) (\<lambda>doc.
       Inr (doc, pol_dict))))))"

text \<open>Then the database update, line 139; the result is the file and the command run.\<close>

definition main ::
  "ucd \<Rightarrow> pystr \<Rightarrow> pystr \<Rightarrow> clock \<Rightarrow> tools \<Rightarrow> pystr \<Rightarrow> document option
     \<Rightarrow> error + document \<times> pystr" where
  "main uc STR_DATETIME STR_EPOCTIME clk t cfgfile file =
     bnd (poll_and_save uc STR_DATETIME clk t file) (\<lambda>(doc, pol_dict).
     bnd (update_database cfgfile STR_EPOCTIME (update_ok t) pol_dict) (\<lambda>cmd.
       Inr (doc, cmd)))"

subsection \<open>File names\<close>

text \<open>
  Lines 94 to 110. \<^verbatim>\<open>re.search('/$', d)\<close> holds when \<open>d\<close> ends with a slash, a final
  newline aside; \<^verbatim>\<open>re.search(r'.json$', f)\<close> when \<open>f\<close> ends with \<^verbatim>\<open>json\<close> behind one
  more character that is not a newline, the dot of the pattern not being escaped.
\<close>

definition slash_at_end :: "pystr \<Rightarrow> bool" where
  "slash_at_end d = (ends_with (ustr ''/'') d \<or> ends_with [47, 10] d)"

definition json_at_end :: "pystr \<Rightarrow> bool" where
  "json_at_end f =
     ((5 \<le> length f \<and> ends_with (ustr ''json'') f \<and> f ! (length f - 5) \<noteq> 10)
      \<or> (6 \<le> length f \<and> ends_with (ustr ''json'' @ [10]) f \<and> f ! (length f - 6) \<noteq> 10))"

text \<open>The configuration file and the database file that \<^verbatim>\<open>main\<close> sets in \<^verbatim>\<open>ARGS\<close>.\<close>

definition file_names :: "pystr \<Rightarrow> pystr \<Rightarrow> pystr \<times> pystr" where
  "file_names datadir cfgfile =
     (let datadir = (if slash_at_end datadir then datadir else datadir @ ustr ''/'');
          cfgfile = (if json_at_end cfgfile then cfgfile else cfgfile @ ustr ''.json'');
          dbfile = replace (ustr ''json'') (ustr ''rrd'') cfgfile
      in if datadir \<noteq> [] then (datadir @ cfgfile, datadir @ dbfile) else (cfgfile, dbfile))"

text \<open>The database file that \<^verbatim>\<open>update_database\<close> names, line 375.\<close>

definition update_file :: "pystr \<Rightarrow> pystr \<Rightarrow> pystr" where
  "update_file datadir cfgfile =
     replace (ustr ''json'') (ustr ''rrd'') (fst (file_names datadir cfgfile))"

section \<open>Sample data\<close>

text \<open>
  The output of a probe that lost no packet, and a configuration with one Target, used
  to run the definitions on.
\<close>

definition ping_ok :: bytes where
  "ping_ok = ''PING one.one.one.one (1.1.1.1) 56(84) bytes of data.\<newline>\<newline>--- one.one.one.one ping statistics ---\<newline>3 packets transmitted, 3 received, 0% packet loss, time 2003ms\<newline>rtt min/avg/max/mdev = 10.1/12.3/15.0/1.2 ms\<newline>''"

definition cfg0 :: targets where
  "cfg0 = [(ustr ''Google'',
            [(ustr ''FQDN'', ustr ''one.one.one.one''), (ustr ''COUNT'', ustr ''3''),
             (ustr ''LASTFAIL'', ustr ''2018-09-14 10:00:00.000000'')])]"

text \<open>
  The output of a probe that lost every packet; a probe cut off before its summary; the
  error output of a probe whose host does not resolve, once in English and once as a
  French locale in ISO 8859-1 prints it.
\<close>

definition ping_lost :: bytes where
  "ping_lost = ''PING one.one.one.one (1.1.1.1) 56(84) bytes of data.\<newline>\<newline>--- one.one.one.one ping statistics ---\<newline>3 packets transmitted, 0 received, 100% packet loss, time 2055ms\<newline>\<newline>''"

definition ping_cut :: bytes where
  "ping_cut = ''PING one.one.one.one (1.1.1.1) 56(84) bytes of data.\<newline>''"

definition ping_unknown_host :: bytes where
  "ping_unknown_host = ''ping: nohost.invalid: Name or service not known\<newline>''"

definition ping_latin1 :: bytes where
  "ping_latin1 = ''ping: nohost.invalid: '' @ [CHR 0xC9] @ ''chec temporaire dans la r''
     @ [CHR 0xE9] @ ''solution du nom\<newline>''"

text \<open>
  A clock that reads the last failure of the sample configuration as the instant 0 and
  shows the given time of day and microsecond count for every Target; and tools of
  which every probe gives the same output and every database call succeeds.
\<close>

definition sample_clock :: "string \<Rightarrow> int \<Rightarrow> clock" where
  "sample_clock hms us =
     \<lparr>strptime = (\<lambda>s. if s = ustr ''2018-09-14 10:00:00.000000'' then Some 0 else None),
      time_of_day = (\<lambda>target. ustr hms), now_us = (\<lambda>target. us)\<rparr>"

definition sample_tools :: "bytes \<Rightarrow> bytes \<Rightarrow> tools" where
  "sample_tools out err =
     \<lparr>probe = (\<lambda>target. (out, err)), info_ok = True, create_ok = True, update_ok = True\<rparr>"

section \<open>Properties\<close>

subsection \<open>Dictionaries, decoding and the tuples of \<^verbatim>\<open>findall\<close>\<close>

lemma getitem_update: "getitem (AList.update k v d) k' = (if k' = k then Inr v else getitem d k')"
  by (simp add: getitem_def update_conv')

lemma match_seq_ngroups: "match_seq uc its s = Some (caps, n) \<Longrightarrow> length caps = ngroups its"
proof (induction uc its s arbitrary: caps n rule: match_seq.induct)
  case (1 uc s)
  then show ?case by simp
next
  case (2 uc l its s)
  then show ?case by (auto simp: longer_def split: if_splits option.splits)
next
  case (3 uc k its s)
  then show ?case by (auto simp: longer_def split: list.splits option.splits)
next
  case (4 uc g its s)
  then show ?case by (auto split: option.splits)
qed

lemma match_alts_ngroups:
  "match_alts uc alts s = Some (caps, n) \<Longrightarrow> length caps = sum_list (map ngroups alts)"
  by (induction alts arbitrary: caps n) (auto split: option.splits dest: match_seq_ngroups)

lemma token_specification_groups: "sum_list (map ngroups token_specification) = 9"
  by (simp add: token_specification_def dotted_def)

lemma tokens_re_length:
  assumes "tokens_re uc s = Some (t, n)"
  shows "length t = 10"
proof -
  from assms obtain caps where m: "match_alts uc token_specification s = Some (caps, n)"
    and t: "t = take n s # caps"
    by (auto simp: tokens_re_def split: option.splits)
  from match_alts_ngroups [OF m] have "length caps = 9"
    by (simp add: token_specification_groups)
  with t show ?thesis by simp
qed

lemma scan_tuple_length: "t \<in> set (scan uc k s) \<Longrightarrow> length t = 10"
  by (induction uc k s rule: scan.induct) (auto split: if_splits option.splits dest: tokens_re_length)

lemma findall_tuple_length: "t \<in> set (findall uc s) \<Longrightarrow> length t = 10"
  by (simp add: findall_def scan_tuple_length)

lemma group_at_less: 
  assumes "group_at (findall uc s) i j = Inr g" "i' \<le> i" "j' < 10"
  shows "\<exists>g'. group_at (findall uc s) i' j' = Inr g'"
proof -
  from assms(1) have i: "i < length (findall uc s)"
    by (auto simp: group_at_def idx_def split: if_splits)
  with assms(2) have i': "i' < length (findall uc s)" by simp
  then have "findall uc s ! i' \<in> set (findall uc s)" by simp
  then have "length (findall uc s ! i') = 10" by (rule findall_tuple_length)
  with i' assms(3) show ?thesis by (simp add: group_at_def idx_def)
qed

lemma utf8_ascii: "list_all (\<lambda>c. c < 128) s \<Longrightarrow> utf8 s = Some s"
  by (induction s) auto

lemma decode_ascii: "list_all (\<lambda>c. of_char c < (128::nat)) b \<Longrightarrow> decode b = Inr (ustr b)"
  by (simp add: decode_def utf8_ascii list_all_iff)

lemma decode_empty: "decode [] = Inr []"
  by (simp add: decode_def)

lemma str_int_100: "str_int 100 = ustr ''100''"
  by (simp add: str_int_def str_nat.simps)

subsection \<open>Numbers\<close>

lemma str_nat_digit: "n < 10 \<Longrightarrow> str_nat n = [48 + n]"
  by (simp add: str_nat.simps)

lemma str_nat_more: "10 \<le> n \<Longrightarrow> str_nat n = str_nat (n div 10) @ [48 + n mod 10]"
  by (subst str_nat.simps) simp

lemma str_nat_not_empty: "str_nat n \<noteq> []"
  by (subst str_nat.simps) simp

lemma str_nat_zero_iff: "str_nat n = [48] \<longleftrightarrow> n = 0"
proof (cases "n < 10")
  case True
  then show ?thesis by (simp add: str_nat_digit)
next
  case False
  then have "str_nat n = str_nat (n div 10) @ [48 + n mod 10]"
    by (simp add: str_nat_more)
  with str_nat_not_empty [of "n div 10"] False show ?thesis
    by (cases "str_nat (n div 10)") auto
qed

lemma str_int_zero_iff: "str_int i = [48] \<longleftrightarrow> i = 0"
  by (auto simp: str_int_def str_nat_zero_iff)

lemma round_half_even_nearest:
  assumes "0 < b"
  shows "\<bar>float_value a b - of_nat (round_half_even a b)\<bar> \<le> 1 / 2"
proof -
  define f r where "f = a div b" and "r = a mod b"
  have a: "a = f * b + r" and r: "r < b"
    using assms by (simp_all add: f_def r_def)
  have v: "float_value a b = of_nat f + of_nat r / of_nat b"
    using assms by (simp add: float_value_def a add_divide_distrib)
  have b: "(0::rat) < of_nat b" using assms by simp
  consider "2 * r < b" | "b < 2 * r" | "2 * r = b" by linarith
  then show ?thesis
  proof cases
    case 1
    then have "of_nat r / of_nat b \<le> (1 / 2 :: rat)"
      using b by (simp add: field_simps)
    moreover have "(0::rat) \<le> of_nat r / of_nat b" by simp
    ultimately show ?thesis
      using 1 by (simp add: v round_half_even_def f_def [symmetric] r_def [symmetric])
  next
    case 2
    then have "(1 / 2 :: rat) \<le> of_nat r / of_nat b"
      using b by (simp add: field_simps)
    moreover have "of_nat r / of_nat b \<le> (1 :: rat)"
      using r b by (simp add: field_simps)
    ultimately show ?thesis
      using 2 by (simp add: v round_half_even_def f_def [symmetric] r_def [symmetric])
  next
    case 3
    then have "of_nat r / of_nat b = (1 / 2 :: rat)"
      using b by (simp add: field_simps)
    then show ?thesis
      using 3 by (simp add: v round_half_even_def f_def [symmetric] r_def [symmetric])
  qed
qed

lemma overflow_pos: "overflow m d = Finite a b \<Longrightarrow> 0 < d \<Longrightarrow> 0 < b"
  by (auto simp: overflow_def split: if_splits)

lemma to_double_pos: "to_double x y = Finite a b \<Longrightarrow> 0 < b"
  by (auto simp: to_double_def round_at_def split: if_splits dest: overflow_pos)

lemma py_float_pos: "py_float uc s = Inr (Finite a b) \<Longrightarrow> 0 < b"
  by (auto simp: py_float_def split: list.splits if_splits dest: to_double_pos)

subsection \<open>The branches of the parser, each with the dictionary it leaves\<close>

lemma group_at_nonempty: "group_at match i j = Inr g \<Longrightarrow> match \<noteq> []"
  by (auto simp: group_at_def idx_def)

lemma rounded_finite:
  "group_at match i j = Inr s \<Longrightarrow> py_float uc s = Inr (Finite a b) \<Longrightarrow>
   rounded uc match i j = Inr (str_int (int (round_half_even a b)))"
  by (simp add: rounded_def py_round_def)

lemma parse_ping_error:
  assumes "getitem poldic key = Inr e" "decode out = Inr text" "decode err = Inr errors"
    "err \<noteq> []"
  shows "parse_ping uc STR_DATETIME poldic key out err =
           Inr (AList.update key (dict_update e (unknown_sample STR_DATETIME)) poldic)"
  using assms by (simp add: parse_ping_def entry_update_def)

lemma parse_ping_no_match:
  assumes "getitem poldic key = Inr e" "decode out = Inr text"
    "contains (ustr ''PING'') text" "findall uc text = []"
  shows "parse_ping uc STR_DATETIME poldic key out [] =
           Inr (AList.update key (dict_update e (unknown_sample STR_DATETIME)) poldic)"
  using assms by (simp add: parse_ping_def entry_update_def decode_empty)

lemma parse_ping_silent:
  assumes "decode out = Inr text" "\<not> contains (ustr ''PING'') text"
  shows "parse_ping uc STR_DATETIME poldic key out [] = Inr poldic"
  using assms by (simp add: parse_ping_def decode_empty)

lemma parse_ping_full_loss:
  assumes key: "getitem poldic key = Inr e"
    and out: "decode out = Inr text"
    and ping: "contains (ustr ''PING'') text"
    and loss: "group_at (findall uc text) 4 5 = Inr loss" "py_int uc loss = Inr 100"
  shows "\<exists>ip tx rx. group_at (findall uc text) 1 2 = Inr ip
           \<and> group_at (findall uc text) 2 3 = Inr tx
           \<and> group_at (findall uc text) 3 4 = Inr rx
           \<and> parse_ping uc STR_DATETIME poldic key out [] =
           Inr (AList.update key (dict_update e
                  [(ustr ''IP'', ip), (ustr ''TX'', tx), (ustr ''RX'', rx),
                   (ustr ''AVAIL'', ustr ''0''),
                   (ustr ''MINRTT'', ustr ''UNKNOWN''), (ustr ''AVGRTT'', ustr ''UNKNOWN''),
                   (ustr ''MAXRTT'', ustr ''UNKNOWN''), (ustr ''MDEV'', ustr ''UNKNOWN''),
                   (ustr ''LASTFAIL'', STR_DATETIME)]) poldic)"
proof -
  obtain ip where ip: "group_at (findall uc text) 1 2 = Inr ip"
    using group_at_less [OF loss(1), of 1 2] by auto
  obtain tx where tx: "group_at (findall uc text) 2 3 = Inr tx"
    using group_at_less [OF loss(1), of 2 3] by auto
  obtain rx where rx: "group_at (findall uc text) 3 4 = Inr rx"
    using group_at_less [OF loss(1), of 3 4] by auto
  have zero: "str_int 0 = ustr ''0''"
    by (simp add: str_int_zero_iff)
  have "parse_ping uc STR_DATETIME poldic key out [] =
           Inr (AList.update key (dict_update e
                  [(ustr ''IP'', ip), (ustr ''TX'', tx), (ustr ''RX'', rx),
                   (ustr ''AVAIL'', ustr ''0''),
                   (ustr ''MINRTT'', ustr ''UNKNOWN''), (ustr ''AVGRTT'', ustr ''UNKNOWN''),
                   (ustr ''MAXRTT'', ustr ''UNKNOWN''), (ustr ''MDEV'', ustr ''UNKNOWN''),
                   (ustr ''LASTFAIL'', STR_DATETIME)]) poldic)"
    using out ping group_at_nonempty [OF loss(1)] key ip tx rx loss zero
    by (simp add: parse_ping_def decode_empty entry_update_def field_def getitem_update)
  with ip tx rx show ?thesis by blast
qed


subsection \<open>Evaluating the pattern, the numbers and the sample\<close>

text \<open>
  A match starts with the letter \<^verbatim>\<open>P\<close> or with a digit, so the scan passes over any
  other character at once.
\<close>

lemma tokens_re_first: "c \<noteq> 80 \<Longrightarrow> \<not> is_digit uc c \<Longrightarrow> tokens_re uc (c # cs) = None"
  by (simp add: tokens_re_def token_specification_def dotted_def in_cls_def)

lemma scan_other: "c \<noteq> 80 \<Longrightarrow> \<not> is_digit uc c \<Longrightarrow> scan uc 0 (c # cs) = scan uc 0 cs"
  by (simp add: tokens_re_first)

lemma scan_try:
  "c = 80 \<or> is_digit uc c \<Longrightarrow>
   scan uc 0 (c # cs) =
     (case tokens_re uc (c # cs) of
        None \<Rightarrow> scan uc 0 cs
      | Some (groups, n) \<Rightarrow> groups # scan uc (n - 1) cs)"
  by simp

lemma scan_skip: "0 < k \<Longrightarrow> scan uc k (c # cs) = scan uc (k - 1) cs"
  by simp

lemma scan_end: "scan uc k [] = []"
  by simp

lemmas scan_eval = findall_def scan_other scan_try scan_skip scan_end tokens_re_def
  token_specification_def dotted_def in_cls_def is_space_def is_digit_def is_word_def
  ascii_ucd_def longer_def

lemma decode_ping_ok: "decode ping_ok = Inr (ustr ping_ok)"
  by (rule decode_ascii) (simp add: ping_ok_def)

lemma findall_ping_ok:
  "findall ascii_ucd (ustr ping_ok) =
     [[ustr ''PING one.one.one.one ('', ustr ''one.one.one.one'', [], [], [], [], [], [], [], []],
      [ustr ''1.1.1.1'', [], ustr ''1.1.1.1'', [], [], [], [], [], [], []],
      [ustr ''3 packets transmitted,'', [], [], ustr ''3'', [], [], [], [], [], []],
      [ustr ''3 received,'', [], [], [], ustr ''3'', [], [], [], [], []],
      [ustr ''0% packet loss,'', [], [], [], [], ustr ''0'', [], [], [], []],
      [ustr ''10.1/12.3/15.0/1.2'', [], [], [], [], [], ustr ''10.1'', ustr ''12.3'',
       ustr ''15.0'', ustr ''1.2'']]"
  by (simp add: ping_ok_def scan_eval del: scan.simps)

lemmas str_eval = str_int_def str_nat_digit str_nat_more

lemma log2_floor_small: "n < 2 \<Longrightarrow> log2_floor n = 0"
  by (simp add: log2_floor.simps)

lemma log2_floor_more: "2 \<le> n \<Longrightarrow> log2_floor n = Suc (log2_floor (n div 2))"
  by (subst log2_floor.simps) simp

lemmas float_eval = py_float_def py_round_def is_digit_def digit_value_def to_double_def
  ilog2_def log2_ceil_def log2_floor_small log2_floor_more round_at_def overflow_def
  round_half_even_def

lemma rounded_eval:
  "group_at match i j = Inr s \<Longrightarrow> bnd (py_float uc s) py_round = Inr n \<Longrightarrow>
   rounded uc match i j = Inr (str_int n)"
  by (cases "py_float uc s") (simp_all add: rounded_def)

lemma round_ping_ok:
  "bnd (py_float ascii_ucd (ustr ''10.1'')) py_round = Inr 10"
  "bnd (py_float ascii_ucd (ustr ''12.3'')) py_round = Inr 12"
  "bnd (py_float ascii_ucd (ustr ''15.0'')) py_round = Inr 15"
  "bnd (py_float ascii_ucd (ustr ''1.2'')) py_round = Inr 1"
  by (simp_all add: float_eval)

lemma rounded_ping_ok:
  "rounded ascii_ucd (findall ascii_ucd (ustr ping_ok)) 5 6 = Inr (ustr ''10'')"
  "rounded ascii_ucd (findall ascii_ucd (ustr ping_ok)) 5 7 = Inr (ustr ''12'')"
  "rounded ascii_ucd (findall ascii_ucd (ustr ping_ok)) 5 8 = Inr (ustr ''15'')"
  "rounded ascii_ucd (findall ascii_ucd (ustr ping_ok)) 5 9 = Inr (ustr ''1'')"
proof -
  have g: "group_at (findall ascii_ucd (ustr ping_ok)) 5 6 = Inr (ustr ''10.1'')"
    "group_at (findall ascii_ucd (ustr ping_ok)) 5 7 = Inr (ustr ''12.3'')"
    "group_at (findall ascii_ucd (ustr ping_ok)) 5 8 = Inr (ustr ''15.0'')"
    "group_at (findall ascii_ucd (ustr ping_ok)) 5 9 = Inr (ustr ''1.2'')"
    by (simp_all add: findall_ping_ok group_at_def idx_def)
  show "rounded ascii_ucd (findall ascii_ucd (ustr ping_ok)) 5 6 = Inr (ustr ''10'')"
    using rounded_eval [OF g(1) round_ping_ok(1)] by (simp add: str_eval)
  show "rounded ascii_ucd (findall ascii_ucd (ustr ping_ok)) 5 7 = Inr (ustr ''12'')"
    using rounded_eval [OF g(2) round_ping_ok(2)] by (simp add: str_eval)
  show "rounded ascii_ucd (findall ascii_ucd (ustr ping_ok)) 5 8 = Inr (ustr ''15'')"
    using rounded_eval [OF g(3) round_ping_ok(3)] by (simp add: str_eval)
  show "rounded ascii_ucd (findall ascii_ucd (ustr ping_ok)) 5 9 = Inr (ustr ''1'')"
    using rounded_eval [OF g(4) round_ping_ok(4)] by (simp add: str_eval)
qed

lemmas int_eval = py_int_def int_unsigned_def c_digit_def c_space_def int_ascii_def

lemma contains_ping_ok: "contains (ustr ''PING'') (ustr ping_ok)"
  by (simp add: ping_ok_def)

lemma floats_ping_ok:
  "\<exists>a b. py_float ascii_ucd (ustr ''10.1'') = Inr (Finite a b) \<and> round_half_even a b = 10"
  "\<exists>a b. py_float ascii_ucd (ustr ''12.3'') = Inr (Finite a b) \<and> round_half_even a b = 12"
  "\<exists>a b. py_float ascii_ucd (ustr ''15.0'') = Inr (Finite a b) \<and> round_half_even a b = 15"
  "\<exists>a b. py_float ascii_ucd (ustr ''1.2'') = Inr (Finite a b) \<and> round_half_even a b = 1"
  by (simp_all add: float_eval)

lemma groups_ping_ok:
  "group_at (findall ascii_ucd (ustr ping_ok)) 4 5 = Inr (ustr ''0'')"
  "group_at (findall ascii_ucd (ustr ping_ok)) 5 6 = Inr (ustr ''10.1'')"
  "group_at (findall ascii_ucd (ustr ping_ok)) 5 7 = Inr (ustr ''12.3'')"
  "group_at (findall ascii_ucd (ustr ping_ok)) 5 8 = Inr (ustr ''15.0'')"
  "group_at (findall ascii_ucd (ustr ping_ok)) 5 9 = Inr (ustr ''1.2'')"
  by (simp_all add: findall_ping_ok group_at_def idx_def)

lemma getitem_cfg0:
  "getitem cfg0 (ustr ''Google'') =
     Inr [(ustr ''FQDN'', ustr ''one.one.one.one''), (ustr ''COUNT'', ustr ''3''),
          (ustr ''LASTFAIL'', ustr ''2018-09-14 10:00:00.000000'')]"
  by (simp add: cfg0_def getitem_def)


subsection \<open>A probe without loss\<close>

text \<open>
  Claim C3. When the output of a probe parses and reports 0% packet loss, the sample's
  availability is \<^verbatim>\<open>100\<close>, that is 100 minus the loss, and the last-failure timestamp
  is the one the Target had before. Parsing means here: the output decodes and contains
  \<^verbatim>\<open>PING\<close>, the fifth match carries the loss, which reads as the number 0, and the
  four round-trip times of the sixth match convert. The parser then returns.
\<close>

theorem zero_loss_keeps_last_failure:
  assumes key: "getitem poldic key = Inr e"
    and out: "decode out = Inr text"
    and ping: "contains (ustr ''PING'') text"
    and loss: "group_at (findall uc text) 4 5 = Inr loss" "py_int uc loss = Inr 0"
    and rtt: "rounded uc (findall uc text) 5 6 = Inr r1" "rounded uc (findall uc text) 5 7 = Inr r2"
      "rounded uc (findall uc text) 5 8 = Inr r3" "rounded uc (findall uc text) 5 9 = Inr r4"
  shows "\<exists>poldic' e'. parse_ping uc STR_DATETIME poldic key out [] = Inr poldic'
           \<and> getitem poldic' key = Inr e'
           \<and> getitem e' (ustr ''AVAIL'') = Inr (ustr ''100'')
           \<and> getitem e' (ustr ''LASTFAIL'') = getitem e (ustr ''LASTFAIL'')"
proof -
  obtain ip where ip: "group_at (findall uc text) 1 2 = Inr ip"
    using group_at_less [OF loss(1), of 1 2] by auto
  obtain tx where tx: "group_at (findall uc text) 2 3 = Inr tx"
    using group_at_less [OF loss(1), of 2 3] by auto
  obtain rx where rx: "group_at (findall uc text) 3 4 = Inr rx"
    using group_at_less [OF loss(1), of 3 4] by auto
  have ne: "findall uc text \<noteq> []"
    using loss(1) by (auto simp: group_at_def idx_def)
  show ?thesis
    using out ping ne key ip tx rx loss rtt
    by (simp add: parse_ping_def decode_empty entry_update_def field_def getitem_update
        str_int_100)
qed

theorem zero_loss_keeps_last_failure_witness:
  "\<exists>poldic' e'.
     parse_ping ascii_ucd (ustr ''2018-09-15 08:30:00.250000'') cfg0 (ustr ''Google'') ping_ok []
       = Inr poldic'
     \<and> getitem poldic' (ustr ''Google'') = Inr e'
     \<and> getitem e' (ustr ''AVAIL'') = Inr (ustr ''100'')
     \<and> getitem e' (ustr ''LASTFAIL'') = Inr (ustr ''2018-09-14 10:00:00.000000'')"
proof -
  have key: "getitem cfg0 (ustr ''Google'') = Inr (snd (hd cfg0))"
    by (simp add: cfg0_def getitem_def)
  have loss: "group_at (findall ascii_ucd (ustr ping_ok)) 4 5 = Inr (ustr ''0'')"
    by (simp add: findall_ping_ok group_at_def idx_def)
  have zero: "py_int ascii_ucd (ustr ''0'') = Inr 0"
    by (simp add: int_eval)
  have old: "getitem (snd (hd cfg0)) (ustr ''LASTFAIL'') = Inr (ustr ''2018-09-14 10:00:00.000000'')"
    by (simp add: cfg0_def getitem_def)
  from zero_loss_keeps_last_failure [OF key decode_ping_ok contains_ping_ok loss zero
      rounded_ping_ok, of "ustr ''2018-09-15 08:30:00.250000''"] old
  show ?thesis by simp
qed

subsection \<open>Round-trip times\<close>

text \<open>
  Claim C5. When the output of a probe parses and the availability is not zero, each of
  the four round-trip fields is the matched floating-point value rounded to a nearest
  whole number, at most one half away from it, and the last-failure timestamp is the
  one the Target had before. The witness is the scenario of the specification: the
  times 10.1/12.3/15.0/1.2 give an average of 12.
\<close>

theorem rtt_rounded_to_nearest:
  assumes key: "getitem poldic key = Inr e"
    and out: "decode out = Inr text"
    and ping: "contains (ustr ''PING'') text"
    and loss: "group_at (findall uc text) 4 5 = Inr loss" "py_int uc loss = Inr n" "n \<noteq> 100"
    and g: "group_at (findall uc text) 5 6 = Inr s1" "group_at (findall uc text) 5 7 = Inr s2"
      "group_at (findall uc text) 5 8 = Inr s3" "group_at (findall uc text) 5 9 = Inr s4"
    and x: "py_float uc s1 = Inr (Finite a1 b1)" "py_float uc s2 = Inr (Finite a2 b2)"
      "py_float uc s3 = Inr (Finite a3 b3)" "py_float uc s4 = Inr (Finite a4 b4)"
  shows "\<exists>poldic' e'. parse_ping uc STR_DATETIME poldic key out [] = Inr poldic'
           \<and> getitem poldic' key = Inr e'
           \<and> getitem e' (ustr ''MINRTT'') = Inr (str_int (int (round_half_even a1 b1)))
           \<and> \<bar>float_value a1 b1 - of_nat (round_half_even a1 b1)\<bar> \<le> 1 / 2
           \<and> getitem e' (ustr ''AVGRTT'') = Inr (str_int (int (round_half_even a2 b2)))
           \<and> \<bar>float_value a2 b2 - of_nat (round_half_even a2 b2)\<bar> \<le> 1 / 2
           \<and> getitem e' (ustr ''MAXRTT'') = Inr (str_int (int (round_half_even a3 b3)))
           \<and> \<bar>float_value a3 b3 - of_nat (round_half_even a3 b3)\<bar> \<le> 1 / 2
           \<and> getitem e' (ustr ''MDEV'') = Inr (str_int (int (round_half_even a4 b4)))
           \<and> \<bar>float_value a4 b4 - of_nat (round_half_even a4 b4)\<bar> \<le> 1 / 2
           \<and> getitem e' (ustr ''LASTFAIL'') = getitem e (ustr ''LASTFAIL'')"
proof -
  obtain ip where ip: "group_at (findall uc text) 1 2 = Inr ip"
    using group_at_less [OF loss(1), of 1 2] by auto
  obtain tx where tx: "group_at (findall uc text) 2 3 = Inr tx"
    using group_at_less [OF loss(1), of 2 3] by auto
  obtain rx where rx: "group_at (findall uc text) 3 4 = Inr rx"
    using group_at_less [OF loss(1), of 3 4] by auto
  have avail: "str_int (100 - n) \<noteq> ustr ''0''"
    using loss(3) by (simp add: str_int_zero_iff)
  note r = rounded_finite [OF g(1) x(1)] rounded_finite [OF g(2) x(2)]
    rounded_finite [OF g(3) x(3)] rounded_finite [OF g(4) x(4)]
  note near = round_half_even_nearest [OF py_float_pos [OF x(1)]]
    round_half_even_nearest [OF py_float_pos [OF x(2)]]
    round_half_even_nearest [OF py_float_pos [OF x(3)]]
    round_half_even_nearest [OF py_float_pos [OF x(4)]]
  have "parse_ping uc STR_DATETIME poldic key out [] =
          Inr (AList.update key (dict_update e
                 [(ustr ''IP'', ip), (ustr ''TX'', tx), (ustr ''RX'', rx),
                  (ustr ''AVAIL'', str_int (100 - n)),
                  (ustr ''MINRTT'', str_int (int (round_half_even a1 b1))),
                  (ustr ''AVGRTT'', str_int (int (round_half_even a2 b2))),
                  (ustr ''MAXRTT'', str_int (int (round_half_even a3 b3))),
                  (ustr ''MDEV'', str_int (int (round_half_even a4 b4)))]) poldic)"
    using out ping group_at_nonempty [OF loss(1)] key ip tx rx loss(1,2) avail r
    by (simp add: parse_ping_def decode_empty entry_update_def field_def getitem_update)
  then show ?thesis
    using near by (simp add: getitem_update)
qed

theorem rtt_rounded_to_nearest_witness:
  "\<exists>poldic' e'.
     parse_ping ascii_ucd (ustr ''2018-09-15 08:30:00.250000'') cfg0 (ustr ''Google'') ping_ok []
       = Inr poldic'
     \<and> getitem poldic' (ustr ''Google'') = Inr e'
     \<and> getitem e' (ustr ''MINRTT'') = Inr (ustr ''10'')
     \<and> getitem e' (ustr ''AVGRTT'') = Inr (ustr ''12'')
     \<and> getitem e' (ustr ''MAXRTT'') = Inr (ustr ''15'')
     \<and> getitem e' (ustr ''MDEV'') = Inr (ustr ''1'')
     \<and> getitem e' (ustr ''LASTFAIL'') = Inr (ustr ''2018-09-14 10:00:00.000000'')"
proof -
  obtain a1 b1 where x1: "py_float ascii_ucd (ustr ''10.1'') = Inr (Finite a1 b1)"
    and r1: "round_half_even a1 b1 = 10"
    using floats_ping_ok(1) by blast
  obtain a2 b2 where x2: "py_float ascii_ucd (ustr ''12.3'') = Inr (Finite a2 b2)"
    and r2: "round_half_even a2 b2 = 12"
    using floats_ping_ok(2) by blast
  obtain a3 b3 where x3: "py_float ascii_ucd (ustr ''15.0'') = Inr (Finite a3 b3)"
    and r3: "round_half_even a3 b3 = 15"
    using floats_ping_ok(3) by blast
  obtain a4 b4 where x4: "py_float ascii_ucd (ustr ''1.2'') = Inr (Finite a4 b4)"
    and r4: "round_half_even a4 b4 = 1"
    using floats_ping_ok(4) by blast
  have zero: "py_int ascii_ucd (ustr ''0'') = Inr 0"
    by (simp add: int_eval)
  have some: "(0::int) \<noteq> 100"
    by simp
  have old: "getitem [(ustr ''FQDN'', ustr ''one.one.one.one''), (ustr ''COUNT'', ustr ''3''),
      (ustr ''LASTFAIL'', ustr ''2018-09-14 10:00:00.000000'')] (ustr ''LASTFAIL'')
    = Inr (ustr ''2018-09-14 10:00:00.000000'')"
    by (simp add: getitem_def)
  from rtt_rounded_to_nearest [OF getitem_cfg0 decode_ping_ok contains_ping_ok
      groups_ping_ok(1) zero some groups_ping_ok(2-5) x1 x2 x3 x4,
      of "ustr ''2018-09-15 08:30:00.250000''"]
  obtain poldic' e' where
    "parse_ping ascii_ucd (ustr ''2018-09-15 08:30:00.250000'') cfg0 (ustr ''Google'') ping_ok []
       = Inr poldic'"
    "getitem poldic' (ustr ''Google'') = Inr e'"
    "getitem e' (ustr ''MINRTT'') = Inr (str_int 10)"
    "getitem e' (ustr ''AVGRTT'') = Inr (str_int 12)"
    "getitem e' (ustr ''MAXRTT'') = Inr (str_int 15)"
    "getitem e' (ustr ''MDEV'') = Inr (str_int 1)"
    "getitem e' (ustr ''LASTFAIL'') = Inr (ustr ''2018-09-14 10:00:00.000000'')"
    unfolding r1 r2 r3 r4 old by auto
  then show ?thesis
    by (simp add: str_eval)
qed

subsection \<open>The parser on the samples, for any dictionary, key and time\<close>

lemma decode_ping_lost: "decode ping_lost = Inr (ustr ping_lost)"
  by (rule decode_ascii) (simp add: ping_lost_def)

lemma decode_ping_cut: "decode ping_cut = Inr (ustr ping_cut)"
  by (rule decode_ascii) (simp add: ping_cut_def)

lemma decode_ping_unknown_host: "decode ping_unknown_host = Inr (ustr ping_unknown_host)"
  by (rule decode_ascii) (simp add: ping_unknown_host_def)

lemma decode_ping_latin1: "decode ping_latin1 = Inl UnicodeDecodeError"
  by (simp add: decode_def ping_latin1_def cont_def)

lemma findall_ping_lost:
  "findall ascii_ucd (ustr ping_lost) =
     [[ustr ''PING one.one.one.one ('', ustr ''one.one.one.one'', [], [], [], [], [], [], [], []],
      [ustr ''1.1.1.1'', [], ustr ''1.1.1.1'', [], [], [], [], [], [], []],
      [ustr ''3 packets transmitted,'', [], [], ustr ''3'', [], [], [], [], [], []],
      [ustr ''0 received,'', [], [], [], ustr ''0'', [], [], [], [], []],
      [ustr ''100% packet loss,'', [], [], [], [], ustr ''100'', [], [], [], []]]"
  by (simp add: ping_lost_def scan_eval del: scan.simps)

lemma findall_ping_cut:
  "findall ascii_ucd (ustr ping_cut) =
     [[ustr ''PING one.one.one.one ('', ustr ''one.one.one.one'', [], [], [], [], [], [], [], []],
      [ustr ''1.1.1.1'', [], ustr ''1.1.1.1'', [], [], [], [], [], [], []]]"
  by (simp add: ping_cut_def scan_eval del: scan.simps)

lemma contains_ping_lost: "contains (ustr ''PING'') (ustr ping_lost)"
  by (simp add: ping_lost_def)

lemma contains_ping_cut: "contains (ustr ''PING'') (ustr ping_cut)"
  by (simp add: ping_cut_def)

lemma parse_ping_error_sample:
  assumes "decode out = Inr text" "decode err = Inr errors" "err \<noteq> []"
  shows "parse_ping uc STR_DATETIME poldic key out err =
           entry_update poldic key (unknown_sample STR_DATETIME)"
  using assms by (simp add: parse_ping_def)

lemma parse_ping_ok_sample:
  "parse_ping ascii_ucd STR_DATETIME poldic key ping_ok [] =
     entry_update poldic key
       [(ustr ''IP'', ustr ''1.1.1.1''), (ustr ''TX'', ustr ''3''), (ustr ''RX'', ustr ''3''),
        (ustr ''AVAIL'', ustr ''100''), (ustr ''MINRTT'', ustr ''10''),
        (ustr ''AVGRTT'', ustr ''12''), (ustr ''MAXRTT'', ustr ''15''),
        (ustr ''MDEV'', ustr ''1'')]"
proof (cases "getitem poldic key")
  case (Inl x)
  then show ?thesis
    using contains_ping_ok
    by (simp add: parse_ping_def decode_ping_ok decode_empty findall_ping_ok entry_update_def)
next
  case (Inr e)
  have zero: "py_int ascii_ucd (ustr ''0'') = Inr 0"
    by (simp add: int_eval)
  show ?thesis
    using contains_ping_ok Inr zero rounded_ping_ok
    by (simp add: parse_ping_def decode_ping_ok decode_empty findall_ping_ok entry_update_def
        field_def getitem_update group_at_def idx_def str_int_100)
qed

lemma parse_ping_lost_sample:
  "parse_ping ascii_ucd STR_DATETIME poldic key ping_lost [] =
     entry_update poldic key
       [(ustr ''IP'', ustr ''1.1.1.1''), (ustr ''TX'', ustr ''3''), (ustr ''RX'', ustr ''0''),
        (ustr ''AVAIL'', ustr ''0''), (ustr ''MINRTT'', ustr ''UNKNOWN''),
        (ustr ''AVGRTT'', ustr ''UNKNOWN''), (ustr ''MAXRTT'', ustr ''UNKNOWN''),
        (ustr ''MDEV'', ustr ''UNKNOWN''), (ustr ''LASTFAIL'', STR_DATETIME)]"
proof (cases "getitem poldic key")
  case (Inl x)
  then show ?thesis
    using contains_ping_lost
    by (simp add: parse_ping_def decode_ping_lost decode_empty findall_ping_lost entry_update_def)
next
  case (Inr e)
  have full: "py_int ascii_ucd (ustr ''100'') = Inr 100"
    by (simp add: int_eval)
  have zero: "str_int 0 = ustr ''0''"
    by (simp add: str_int_zero_iff)
  show ?thesis
    using contains_ping_lost Inr full zero
    by (simp add: parse_ping_def decode_ping_lost decode_empty findall_ping_lost entry_update_def
        field_def getitem_update group_at_def idx_def)
qed

lemma parse_ping_cut_sample:
  "getitem poldic key = Inr e \<Longrightarrow>
   parse_ping ascii_ucd STR_DATETIME poldic key ping_cut [] = Inl IndexError"
  using contains_ping_cut
  by (simp add: parse_ping_def decode_ping_cut decode_empty findall_ping_cut group_at_def idx_def)

subsection \<open>A probe that wrote to standard error\<close>

lemma getitem_unknown_sample:
  "getitem (dict_update e (unknown_sample t)) (ustr ''IP'') = Inr (ustr ''UNKNOWN'')"
  "getitem (dict_update e (unknown_sample t)) (ustr ''TX'') = Inr (ustr ''UNKNOWN'')"
  "getitem (dict_update e (unknown_sample t)) (ustr ''RX'') = Inr (ustr ''UNKNOWN'')"
  "getitem (dict_update e (unknown_sample t)) (ustr ''AVAIL'') = Inr (ustr ''0'')"
  "getitem (dict_update e (unknown_sample t)) (ustr ''MINRTT'') = Inr (ustr ''UNKNOWN'')"
  "getitem (dict_update e (unknown_sample t)) (ustr ''AVGRTT'') = Inr (ustr ''UNKNOWN'')"
  "getitem (dict_update e (unknown_sample t)) (ustr ''MAXRTT'') = Inr (ustr ''UNKNOWN'')"
  "getitem (dict_update e (unknown_sample t)) (ustr ''MDEV'') = Inr (ustr ''UNKNOWN'')"
  "getitem (dict_update e (unknown_sample t)) (ustr ''LASTFAIL'') = Inr t"
  by (simp_all add: unknown_sample_def getitem_update)

text \<open>
  Claim C10, as amended. When a probe wrote to standard error, and both streams decode as
  UTF-8, the parser marks the probe failed: availability \<^verbatim>\<open>0\<close>, the address, the
  counts and the four round-trip times \<^verbatim>\<open>UNKNOWN\<close>, the last-failure timestamp the
  current one. Standard output has no part in the result: any other output that decodes
  gives the same dictionary.
\<close>

theorem stderr_marks_probe_failed:
  assumes key: "getitem poldic key = Inr e"
    and out: "decode out = Inr text"
    and err: "decode err = Inr errors" "err \<noteq> []"
  shows "\<exists>poldic' e'. parse_ping uc STR_DATETIME poldic key out err = Inr poldic'
           \<and> getitem poldic' key = Inr e'
           \<and> getitem e' (ustr ''AVAIL'') = Inr (ustr ''0'')
           \<and> getitem e' (ustr ''IP'') = Inr (ustr ''UNKNOWN'')
           \<and> getitem e' (ustr ''TX'') = Inr (ustr ''UNKNOWN'')
           \<and> getitem e' (ustr ''RX'') = Inr (ustr ''UNKNOWN'')
           \<and> getitem e' (ustr ''MINRTT'') = Inr (ustr ''UNKNOWN'')
           \<and> getitem e' (ustr ''AVGRTT'') = Inr (ustr ''UNKNOWN'')
           \<and> getitem e' (ustr ''MAXRTT'') = Inr (ustr ''UNKNOWN'')
           \<and> getitem e' (ustr ''MDEV'') = Inr (ustr ''UNKNOWN'')
           \<and> getitem e' (ustr ''LASTFAIL'') = Inr STR_DATETIME
           \<and> (\<forall>out' text'. decode out' = Inr text' \<longrightarrow>
                 parse_ping uc STR_DATETIME poldic key out' err = Inr poldic')"
proof -
  let ?p = "AList.update key (dict_update e (unknown_sample STR_DATETIME)) poldic"
  have same: "parse_ping uc STR_DATETIME poldic key out' err = Inr ?p"
    if "decode out' = Inr text'" for out' text'
    using parse_ping_error [OF key that err] .
  have "getitem ?p key = Inr (dict_update e (unknown_sample STR_DATETIME))"
    by (simp add: getitem_update)
  with same [OF out] same getitem_unknown_sample [of e STR_DATETIME] show ?thesis
    by blast
qed

theorem stderr_marks_probe_failed_witness:
  "\<exists>poldic' e'.
     parse_ping ascii_ucd (ustr ''2018-09-15 08:30:00.250000'') cfg0 (ustr ''Google'')
       ping_ok ping_unknown_host = Inr poldic'
     \<and> getitem poldic' (ustr ''Google'') = Inr e'
     \<and> getitem e' (ustr ''AVAIL'') = Inr (ustr ''0'')
     \<and> getitem e' (ustr ''AVGRTT'') = Inr (ustr ''UNKNOWN'')
     \<and> getitem e' (ustr ''LASTFAIL'') = Inr (ustr ''2018-09-15 08:30:00.250000'')
     \<and> parse_ping ascii_ucd (ustr ''2018-09-15 08:30:00.250000'') cfg0 (ustr ''Google'')
          ping_lost ping_unknown_host = Inr poldic'"
proof -
  have ne: "ping_unknown_host \<noteq> []"
    by (simp add: ping_unknown_host_def)
  from stderr_marks_probe_failed [OF getitem_cfg0 decode_ping_ok decode_ping_unknown_host ne,
      of ascii_ucd "ustr ''2018-09-15 08:30:00.250000''"] decode_ping_lost
  show ?thesis by blast
qed

text \<open>
  The claim as stated fails where a stream does not decode: the parser decodes both for
  its debug trace before it looks at anything, and the French message is not UTF-8.
\<close>

theorem stderr_undecodable_counterexample:
  "parse_ping ascii_ucd (ustr ''2018-09-15 08:30:00.250000'') cfg0 (ustr ''Google'')
     ping_ok ping_latin1 = Inl UnicodeDecodeError"
  by (simp add: parse_ping_def decode_ping_ok decode_ping_latin1)

subsection \<open>Evaluating the steps of a run\<close>

lemma parse_ping_empty: "parse_ping uc STR_DATETIME poldic key [] [] = Inr poldic"
  by (simp add: parse_ping_def decode_empty)

lemmas dict_eval = getitem_def field_def entry_update_def idx_def

lemmas config_eval = read_config_def load_config_def write_config_def gfxprm_sort_def
  step_of_def default_graphs_def graph_interval_def cfg0_def

lemmas uptime_eval = calc_uptime_def uptime_text_def uptime_units_def unit_text_def
  sample_clock_def to_double_def ilog2_def log2_ceil_def log2_floor_small log2_floor_more
  round_at_def overflow_def round_half_even_def Let_def

lemma read_sample:
  "read_config ascii_ucd t (Some [cfg0, default_graphs]) =
     Inr (cfg0, default_graphs, Some [cfg0, default_graphs])"
  by (simp add: config_eval dict_eval Let_def)

lemma sorted_default_graphs: "gfxprm_sort ascii_ucd default_graphs = Inr default_graphs"
  by (simp add: config_eval dict_eval int_eval)

lemma ping_hosts_silent:
  "ping_hosts ascii_ucd t (\<lambda>target. ([], [])) cfg0 cfg0 =
     Inr ([(ustr ''Google'',
            [(ustr ''FQDN'', ustr ''one.one.one.one''), (ustr ''COUNT'', ustr ''3''),
             (ustr ''LASTFAIL'', ustr ''2018-09-14 10:00:00.000000''), (ustr ''LASTPOLL'', t)])],
          [(ustr ''Google'',
            [(ustr ''FQDN'', ustr ''one.one.one.one''), (ustr ''COUNT'', ustr ''3''),
             (ustr ''LASTFAIL'', ustr ''2018-09-14 10:00:00.000000''), (ustr ''PID'', [])])])"
  by (simp add: ping_hosts_def cfg0_def dict_eval parse_ping_empty)

lemma uptime_sample: "uptime_text 81000250000 = Inr (ustr ''1 days, 10 hours, 30 minutes, 0 seconds.'')"
  by (simp add: uptime_eval str_eval)

subsection \<open>Launch errors and full loss\<close>

text \<open>
  Claim C4, as amended. A probe that reports a launch-level error, both of whose streams
  decode as UTF-8, and a probe that parses with 100% packet loss leave samples that agree
  in the availability \<^verbatim>\<open>0\<close>, in the four round-trip sentinels, in the last-failure
  timestamp, and in every other field but three: the error path sets address and packet
  counts to \<^verbatim>\<open>UNKNOWN\<close>, the loss path stores what the output says. An error report
  that does not decode leaves no sample: the parser raises.
\<close>

theorem launch_error_like_full_loss:
  assumes key: "getitem poldic key = Inr e"
    and err: "decode out1 = Inr text1" "decode err1 = Inr errors" "err1 \<noteq> []"
    and out: "decode out2 = Inr text2" "contains (ustr ''PING'') text2"
    and loss: "group_at (findall uc text2) 4 5 = Inr loss" "py_int uc loss = Inr 100"
  shows "\<exists>p1 e1 p2 e2.
           parse_ping uc STR_DATETIME poldic key out1 err1 = Inr p1 \<and> getitem p1 key = Inr e1
         \<and> parse_ping uc STR_DATETIME poldic key out2 [] = Inr p2 \<and> getitem p2 key = Inr e2
         \<and> getitem e1 (ustr ''AVAIL'') = Inr (ustr ''0'')
         \<and> getitem e1 (ustr ''MINRTT'') = Inr (ustr ''UNKNOWN'')
         \<and> getitem e1 (ustr ''AVGRTT'') = Inr (ustr ''UNKNOWN'')
         \<and> getitem e1 (ustr ''MAXRTT'') = Inr (ustr ''UNKNOWN'')
         \<and> getitem e1 (ustr ''MDEV'') = Inr (ustr ''UNKNOWN'')
         \<and> getitem e1 (ustr ''LASTFAIL'') = Inr STR_DATETIME
         \<and> (\<forall>f. f \<notin> {ustr ''IP'', ustr ''TX'', ustr ''RX''} \<longrightarrow> getitem e2 f = getitem e1 f)
         \<and> getitem e1 (ustr ''IP'') = Inr (ustr ''UNKNOWN'')
         \<and> getitem e1 (ustr ''TX'') = Inr (ustr ''UNKNOWN'')
         \<and> getitem e1 (ustr ''RX'') = Inr (ustr ''UNKNOWN'')
         \<and> getitem e2 (ustr ''IP'') = group_at (findall uc text2) 1 2
         \<and> getitem e2 (ustr ''TX'') = group_at (findall uc text2) 2 3
         \<and> getitem e2 (ustr ''RX'') = group_at (findall uc text2) 3 4"
proof -
  let ?e1 = "dict_update e (unknown_sample STR_DATETIME)"
  have p1: "parse_ping uc STR_DATETIME poldic key out1 err1 = Inr (AList.update key ?e1 poldic)"
    using parse_ping_error [OF key err] .
  obtain ip tx rx where g: "group_at (findall uc text2) 1 2 = Inr ip"
    "group_at (findall uc text2) 2 3 = Inr tx" "group_at (findall uc text2) 3 4 = Inr rx"
    and p2: "parse_ping uc STR_DATETIME poldic key out2 [] =
      Inr (AList.update key (dict_update e
            [(ustr ''IP'', ip), (ustr ''TX'', tx), (ustr ''RX'', rx),
             (ustr ''AVAIL'', ustr ''0''),
             (ustr ''MINRTT'', ustr ''UNKNOWN''), (ustr ''AVGRTT'', ustr ''UNKNOWN''),
             (ustr ''MAXRTT'', ustr ''UNKNOWN''), (ustr ''MDEV'', ustr ''UNKNOWN''),
             (ustr ''LASTFAIL'', STR_DATETIME)]) poldic)" (is "_ = Inr (AList.update key ?e2 poldic)")
    using parse_ping_full_loss [OF key out loss, of STR_DATETIME] by blast
  have same: "getitem ?e2 f = getitem ?e1 f" if "f \<notin> {ustr ''IP'', ustr ''TX'', ustr ''RX''}" for f
    using that by (simp add: unknown_sample_def getitem_update)
  have e2: "getitem ?e2 (ustr ''IP'') = Inr ip" "getitem ?e2 (ustr ''TX'') = Inr tx"
    "getitem ?e2 (ustr ''RX'') = Inr rx"
    by (simp_all add: getitem_update)
  have k1: "getitem (AList.update key ?e1 poldic) key = Inr ?e1"
    and k2: "getitem (AList.update key ?e2 poldic) key = Inr ?e2"
    by (simp_all add: getitem_update)
  show ?thesis
    using p1 p2 k1 k2 same e2 g getitem_unknown_sample [of e STR_DATETIME]
    by (intro exI [of _ "AList.update key ?e1 poldic"] exI [of _ ?e1]
        exI [of _ "AList.update key ?e2 poldic"] exI [of _ ?e2]) simp
qed

lemma groups_ping_lost:
  "group_at (findall ascii_ucd (ustr ping_lost)) 4 5 = Inr (ustr ''100'')"
  "group_at (findall ascii_ucd (ustr ping_lost)) 1 2 = Inr (ustr ''1.1.1.1'')"
  "group_at (findall ascii_ucd (ustr ping_lost)) 2 3 = Inr (ustr ''3'')"
  "group_at (findall ascii_ucd (ustr ping_lost)) 3 4 = Inr (ustr ''0'')"
  by (simp_all add: findall_ping_lost group_at_def idx_def)

theorem launch_error_like_full_loss_witness:
  "\<exists>p1 e1 p2 e2.
     parse_ping ascii_ucd (ustr ''2018-09-15 08:30:00.250000'') cfg0 (ustr ''Google'')
       [] ping_unknown_host = Inr p1 \<and> getitem p1 (ustr ''Google'') = Inr e1
   \<and> parse_ping ascii_ucd (ustr ''2018-09-15 08:30:00.250000'') cfg0 (ustr ''Google'')
       ping_lost [] = Inr p2 \<and> getitem p2 (ustr ''Google'') = Inr e2
   \<and> getitem e1 (ustr ''AVAIL'') = Inr (ustr ''0'')
   \<and> getitem e2 (ustr ''AVAIL'') = Inr (ustr ''0'')
   \<and> getitem e2 (ustr ''AVGRTT'') = Inr (ustr ''UNKNOWN'')
   \<and> getitem e2 (ustr ''LASTFAIL'') = Inr (ustr ''2018-09-15 08:30:00.250000'')
   \<and> getitem e2 (ustr ''FQDN'') = getitem e1 (ustr ''FQDN'')
   \<and> getitem e1 (ustr ''IP'') = Inr (ustr ''UNKNOWN'')
   \<and> getitem e2 (ustr ''IP'') = Inr (ustr ''1.1.1.1'')"
proof -
  have ne: "ping_unknown_host \<noteq> []"
    by (simp add: ping_unknown_host_def)
  have full: "py_int ascii_ucd (ustr ''100'') = Inr 100"
    by (simp add: int_eval)
  from launch_error_like_full_loss [OF getitem_cfg0 decode_empty decode_ping_unknown_host ne
      decode_ping_lost contains_ping_lost groups_ping_lost(1) full,
      of "ustr ''2018-09-15 08:30:00.250000''"]
  obtain p1 e1 p2 e2 where
    "parse_ping ascii_ucd (ustr ''2018-09-15 08:30:00.250000'') cfg0 (ustr ''Google'')
       [] ping_unknown_host = Inr p1" "getitem p1 (ustr ''Google'') = Inr e1"
    "parse_ping ascii_ucd (ustr ''2018-09-15 08:30:00.250000'') cfg0 (ustr ''Google'')
       ping_lost [] = Inr p2" "getitem p2 (ustr ''Google'') = Inr e2"
    "getitem e1 (ustr ''AVAIL'') = Inr (ustr ''0'')"
    "getitem e1 (ustr ''AVGRTT'') = Inr (ustr ''UNKNOWN'')"
    "getitem e1 (ustr ''LASTFAIL'') = Inr (ustr ''2018-09-15 08:30:00.250000'')"
    "\<forall>f. f \<notin> {ustr ''IP'', ustr ''TX'', ustr ''RX''} \<longrightarrow> getitem e2 f = getitem e1 f"
    "getitem e1 (ustr ''IP'') = Inr (ustr ''UNKNOWN'')"
    "getitem e2 (ustr ''IP'') = group_at (findall ascii_ucd (ustr ping_lost)) 1 2"
    by blast
  then show ?thesis
    using groups_ping_lost(2) by simp
qed

text \<open>
  The claim as stated fails twice. The two samples are not identical: for the same Target
  the error path gives the address \<^verbatim>\<open>UNKNOWN\<close> and the loss path the address that the
  output names. And a launch error that a French locale reports in ISO 8859-1 gives no
  sample at all, where the loss path gives one.
\<close>

theorem launch_error_unlike_full_loss_counterexample:
  "bnd (parse_ping ascii_ucd (ustr ''2018-09-15 08:30:00.250000'') cfg0 (ustr ''Google'')
          [] ping_unknown_host) (\<lambda>p. field p (ustr ''Google'') (ustr ''IP''))
     = Inr (ustr ''UNKNOWN'')
   \<and> bnd (parse_ping ascii_ucd (ustr ''2018-09-15 08:30:00.250000'') cfg0 (ustr ''Google'')
          ping_lost []) (\<lambda>p. field p (ustr ''Google'') (ustr ''IP''))
     = Inr (ustr ''1.1.1.1'')
   \<and> parse_ping ascii_ucd (ustr ''2018-09-15 08:30:00.250000'') cfg0 (ustr ''Google'')
          [] ping_latin1 = Inl UnicodeDecodeError"
proof -
  have ne: "ping_unknown_host \<noteq> []"
    by (simp add: ping_unknown_host_def)
  have latin1: "parse_ping ascii_ucd (ustr ''2018-09-15 08:30:00.250000'') cfg0 (ustr ''Google'')
      [] ping_latin1 = Inl UnicodeDecodeError"
    by (simp add: parse_ping_def decode_empty decode_ping_latin1)
  show ?thesis
    using latin1
    by (simp add: parse_ping_error_sample [OF decode_empty decode_ping_unknown_host ne]
        parse_ping_lost_sample cfg0_def unknown_sample_def dict_eval)
qed

text \<open>
  Claim C2 at a probe that wrote nothing, neither output nor error. No branch of the
  parser runs: the sample has no availability and no round-trip time, and the
  last-failure timestamp stays the old one.
\<close>

theorem silent_probe_leaves_no_sample:
  "parse_ping ascii_ucd (ustr ''2018-09-15 08:30:00.250000'') cfg0 (ustr ''Google'') [] []
     = Inr cfg0
   \<and> field cfg0 (ustr ''Google'') (ustr ''AVAIL'') = Inl KeyError
   \<and> field cfg0 (ustr ''Google'') (ustr ''AVGRTT'') = Inl KeyError
   \<and> field cfg0 (ustr ''Google'') (ustr ''LASTFAIL'') = Inr (ustr ''2018-09-14 10:00:00.000000'')"
  by (simp add: parse_ping_empty cfg0_def dict_eval)

text \<open>
  Claim C1 at the same probe, and at a probe cut off before its summary. The run does not
  complete: the update of the database finds no sample and raises \<^verbatim>\<open>KeyError\<close>; the
  parser indexes a match that is not there and raises \<^verbatim>\<open>IndexError\<close>.
\<close>

theorem unparsed_probe_aborts_run:
  "main ascii_ucd (ustr ''2018-09-15 08:30:00.250000'') (ustr ''1536996600'')
     (sample_clock ''08:30:00'' 81000250000) (sample_tools [] [])
     (ustr ''/home/pi/data/mhag.json'') (Some [cfg0, default_graphs]) = Inl KeyError
   \<and> main ascii_ucd (ustr ''2018-09-15 08:30:00.250000'') (ustr ''1536996600'')
     (sample_clock ''08:30:00'' 81000250000) (sample_tools ping_cut [])
     (ustr ''/home/pi/data/mhag.json'') (Some [cfg0, default_graphs]) = Inl IndexError"
proof -
  have cut: "ping_hosts ascii_ucd t (\<lambda>target. (ping_cut, [])) cfg0 cfg0 = Inl IndexError" for t
    by (simp add: ping_hosts_def cfg0_def dict_eval parse_ping_cut_sample)
  have up: "calc_uptime (sample_clock ''08:30:00'' 81000250000)
      [(ustr ''Google'',
        [(ustr ''FQDN'', ustr ''one.one.one.one''), (ustr ''COUNT'', ustr ''3''),
         (ustr ''LASTFAIL'', ustr ''2018-09-14 10:00:00.000000''), (ustr ''LASTPOLL'', t)])]
      = Inr [(ustr ''Google'',
        [(ustr ''FQDN'', ustr ''one.one.one.one''), (ustr ''COUNT'', ustr ''3''),
         (ustr ''LASTFAIL'', ustr ''2018-09-14 10:00:00.000000''), (ustr ''LASTPOLL'', t),
         (ustr ''UPTIME'',
          ustr ''08:30:00 UP (since last ping fail) for 1 days, 10 hours, 30 minutes, 0 seconds.'')])]"
    for t
    by (simp add: calc_uptime_def sample_clock_def dict_eval uptime_sample)
  have silent: "poll_and_save ascii_ucd t (sample_clock ''08:30:00'' 81000250000)
      (sample_tools [] []) (Some [cfg0, default_graphs])
      = Inr ([[(ustr ''Google'',
        [(ustr ''FQDN'', ustr ''one.one.one.one''), (ustr ''COUNT'', ustr ''3''),
         (ustr ''LASTFAIL'', ustr ''2018-09-14 10:00:00.000000''), (ustr ''LASTPOLL'', t),
         (ustr ''UPTIME'',
          ustr ''08:30:00 UP (since last ping fail) for 1 days, 10 hours, 30 minutes, 0 seconds.'')])],
        default_graphs],
        [(ustr ''Google'',
            [(ustr ''FQDN'', ustr ''one.one.one.one''), (ustr ''COUNT'', ustr ''3''),
             (ustr ''LASTFAIL'', ustr ''2018-09-14 10:00:00.000000''), (ustr ''PID'', [])])])"
    for t
    using read_sample [of t] ping_hosts_silent [of t] up [of t] sorted_default_graphs
    by (simp add: poll_and_save_def verify_rrd_def sample_tools_def write_config_def)
  have "main ascii_ucd (ustr ''2018-09-15 08:30:00.250000'') (ustr ''1536996600'')
     (sample_clock ''08:30:00'' 81000250000) (sample_tools [] [])
     (ustr ''/home/pi/data/mhag.json'') (Some [cfg0, default_graphs]) = Inl KeyError"
    using silent [of "ustr ''2018-09-15 08:30:00.250000''"]
    by (simp add: main_def update_database_def dict_eval sample_tools_def)
  moreover have "main ascii_ucd (ustr ''2018-09-15 08:30:00.250000'') (ustr ''1536996600'')
     (sample_clock ''08:30:00'' 81000250000) (sample_tools ping_cut [])
     (ustr ''/home/pi/data/mhag.json'') (Some [cfg0, default_graphs]) = Inl IndexError"
    using read_sample [of "ustr ''2018-09-15 08:30:00.250000''"]
      cut [of "ustr ''2018-09-15 08:30:00.250000''"]
    by (simp add: main_def poll_and_save_def verify_rrd_def sample_tools_def)
  ultimately show ?thesis ..
qed

subsection \<open>Writing the configuration and reading it back\<close>

lemma update_fresh: "k \<notin> fst ` set d \<Longrightarrow> AList.update k v d = d @ [(k, v)]"
  by (induction d) auto

lemma dict_update_fresh:
  "distinct (map fst kvs) \<Longrightarrow> fst ` set d \<inter> fst ` set kvs = {} \<Longrightarrow> dict_update d kvs = d @ kvs"
proof (induction kvs arbitrary: d)
  case Nil
  then show ?case by simp
next
  case (Cons kv kvs)
  obtain k v where kv: "kv = (k, v)" by (cases kv)
  from Cons.prems have fresh: "k \<notin> fst ` set d"
    by (auto simp: kv)
  from Cons.prems have "fst ` set (d @ [(k, v)]) \<inter> fst ` set kvs = {}"
    by (auto simp: kv)
  with Cons.IH [of "d @ [(k, v)]"] Cons.prems show ?case
    by (simp add: kv update_fresh [OF fresh])
qed

lemma dict_update_empty: "distinct (map fst d) \<Longrightarrow> dict_update [] d = d"
  using dict_update_fresh [of d "[]"] by simp

lemma step_keys_length: "step_keys uc g = Inr ks \<Longrightarrow> length ks = length g"
proof (induction g arbitrary: ks)
  case Nil
  then show ?case by simp
next
  case (Cons x g)
  then show ?case
    by (cases "step_of uc x"; cases "step_keys uc g") auto
qed

lemma step_keys_zip:
  "step_keys uc g = Inr ks \<Longrightarrow> (k, x) \<in> set (zip ks g) \<Longrightarrow> step_of uc x = Inr k"
proof (induction g arbitrary: ks)
  case Nil
  then show ?case by simp
next
  case (Cons y g)
  then show ?case
    by (cases "step_of uc y"; cases "step_keys uc g") auto
qed

lemma step_keys_of_pairs:
  "(\<And>k x. (k, x) \<in> set z \<Longrightarrow> step_of uc x = Inr k) \<Longrightarrow>
   step_keys uc (map snd z) = Inr (map fst z)"
proof (induction z)
  case Nil
  then show ?case by simp
next
  case (Cons p z)
  have "step_of uc (snd p) = Inr (fst p)"
    using Cons.prems [of "fst p" "snd p"] by simp
  moreover have "step_keys uc (map snd z) = Inr (map fst z)"
    using Cons.prems by (intro Cons.IH) simp
  ultimately show ?case by simp
qed

text \<open>Sorting by step keeps the definitions and their names and puts the steps in order.\<close>

lemma gfxprm_sort_sorted:
  assumes "gfxprm_sort uc gfxdic = Inr g"
  shows "set g = set gfxdic"
    and "distinct (map fst g) = distinct (map fst gfxdic)"
    and "\<exists>ks. step_keys uc g = Inr ks \<and> sorted ks"
proof -
  from assms obtain ks where ks: "step_keys uc gfxdic = Inr ks"
    and g: "g = map snd (sort_key fst (zip ks gfxdic))"
    by (cases "step_keys uc gfxdic") (auto simp: gfxprm_sort_def)
  let ?z = "sort_key fst (zip ks gfxdic)"
  have len: "length ks = length gfxdic"
    using ks by (rule step_keys_length)
  have unzip: "map snd (zip ks gfxdic) = gfxdic"
    using len by simp
  have "set g = snd ` set (zip ks gfxdic)"
    by (simp add: g)
  also have "\<dots> = set (map snd (zip ks gfxdic))"
    by simp
  finally show "set g = set gfxdic"
    by (simp only: unzip)
  have "distinct (map fst g) = distinct (map (fst \<circ> snd) ?z)"
    by (simp add: g)
  also have "\<dots> = (distinct ?z \<and> inj_on (fst \<circ> snd) (set ?z))"
    by (rule distinct_map)
  also have "\<dots> = (distinct (zip ks gfxdic) \<and> inj_on (fst \<circ> snd) (set (zip ks gfxdic)))"
    by simp
  also have "\<dots> = distinct (map (fst \<circ> snd) (zip ks gfxdic))"
    by (rule distinct_map [symmetric])
  also have "map (fst \<circ> snd) (zip ks gfxdic) = map fst (map snd (zip ks gfxdic))"
    by simp
  finally show "distinct (map fst g) = distinct (map fst gfxdic)"
    by (simp only: unzip)
  have "step_keys uc g = Inr (map fst ?z)"
    unfolding g by (rule step_keys_of_pairs) (auto dest: step_keys_zip [OF ks])
  moreover have "sorted (map fst ?z)"
    by (rule sorted_sort_key)
  ultimately show "\<exists>ks. step_keys uc g = Inr ks \<and> sorted ks"
    by blast
qed

text \<open>
  Claim C8. Writing the Targets and the Graph Interval Definitions and loading what was
  written gives the same Targets and the same definitions: the same names with the same
  fields, in the file in ascending order of their step. Unless the set of definitions
  is empty, that is also what \<^verbatim>\<open>read_config\<close> returns, and it leaves the file alone.
  A dictionary has each key once.
\<close>

theorem config_round_trip:
  assumes cfg: "distinct (map fst cfgdic)"
    and gfx: "distinct (map fst gfxdic)"
    and doc: "write_config uc cfgdic gfxdic = Inr doc"
  shows "\<exists>g ks. doc = [cfgdic, g]
           \<and> load_config doc = Inr (cfgdic, g)
           \<and> distinct (map fst g) \<and> set g = set gfxdic \<and> map_of g = map_of gfxdic
           \<and> step_keys uc g = Inr ks \<and> sorted ks
           \<and> (gfxdic \<noteq> [] \<longrightarrow>
                read_config uc STR_DATETIME (Some doc) = Inr (cfgdic, g, Some doc))"
proof -
  from doc obtain g where g: "gfxprm_sort uc gfxdic = Inr g" and d: "doc = [cfgdic, g]"
    by (cases "gfxprm_sort uc gfxdic") (auto simp: write_config_def)
  note s = gfxprm_sort_sorted [OF g]
  from s(3) obtain ks where ks: "step_keys uc g = Inr ks" "sorted ks"
    by blast
  have dg: "distinct (map fst g)"
    using s(2) gfx by simp
  have m: "map_of g = map_of gfxdic"
    using dg gfx s(1) by (simp add: map_of_inject_set)
  have l: "load_config doc = Inr (cfgdic, g)"
    by (simp add: d load_config_def idx_def dict_update_empty [OF cfg] dict_update_empty [OF dg])
  have "read_config uc STR_DATETIME (Some doc) = Inr (cfgdic, g, Some doc)" if "gfxdic \<noteq> []"
  proof -
    from that s(1) have "g \<noteq> []" by auto
    with l show ?thesis
      by (simp add: read_config_def)
  qed
  with d l dg s(1) m ks show ?thesis
    by blast
qed

lemma write_sample:
  "write_config ascii_ucd cfg0 (rev default_graphs) = Inr [cfg0, default_graphs]"
  by (simp add: config_eval dict_eval int_eval)

theorem config_round_trip_witness:
  "write_config ascii_ucd cfg0 (rev default_graphs) = Inr [cfg0, default_graphs]
   \<and> load_config [cfg0, default_graphs] = Inr (cfg0, default_graphs)
   \<and> map_of default_graphs = map_of (rev default_graphs)
   \<and> (\<exists>ks. step_keys ascii_ucd default_graphs = Inr ks \<and> sorted ks)
   \<and> read_config ascii_ucd (ustr ''2018-09-15 08:30:00.250000'') (Some [cfg0, default_graphs])
       = Inr (cfg0, default_graphs, Some [cfg0, default_graphs])"
proof -
  have c: "distinct (map fst cfg0)"
    by (simp add: cfg0_def)
  have g: "distinct (map fst (rev default_graphs))"
    by (simp add: default_graphs_def)
  have ne: "rev default_graphs \<noteq> []"
    by (simp add: default_graphs_def)
  from config_round_trip [OF c g write_sample, of "ustr ''2018-09-15 08:30:00.250000''"] ne
  show ?thesis
    using write_sample by auto
qed


subsection \<open>The name of the database file\<close>

text \<open>
  Claim C7 at two inputs. \<^verbatim>\<open>replace('json', 'rrd')\<close> rewrites every occurrence of
  \<^verbatim>\<open>json\<close>, not the extension alone: a configuration named \<^verbatim>\<open>json_hosts.json\<close> gets the
  database \<^verbatim>\<open>rrd_hosts.rrd\<close>; and with the data directory \<^verbatim>\<open>/home/json/\<close> the database
  that \<^verbatim>\<open>main\<close> names, which is verified and graphed, is not the one that
  \<^verbatim>\<open>update_database\<close> writes to.
\<close>

theorem database_file_rewrites_every_json:
  "file_names (ustr ''/home/pi/data'') (ustr ''json_hosts.json'')
     = (ustr ''/home/pi/data/json_hosts.json'', ustr ''/home/pi/data/rrd_hosts.rrd'')
   \<and> file_names (ustr ''/home/json/'') (ustr ''mhag.json'')
     = (ustr ''/home/json/mhag.json'', ustr ''/home/json/mhag.rrd'')
   \<and> update_file (ustr ''/home/json/'') (ustr ''mhag.json'') = ustr ''/home/rrd/mhag.rrd''"
  by (simp add: update_file_def file_names_def slash_at_end_def json_at_end_def ends_with_def
      replace_def)

subsection \<open>The uptime string\<close>

lemma field_entry_update:
  assumes "entry_update d k kvs = Inr d'"
  shows "field d' t f =
           (if t = k then bnd (getitem d k) (\<lambda>e. getitem (dict_update e kvs) f) else field d t f)"
  using assms
  by (cases "getitem d k") (auto simp: entry_update_def field_def getitem_update)

lemma keys_entry_update:
  assumes "entry_update d k kvs = Inr d'"
  shows "map fst d' = map fst d"
proof -
  from assms obtain e where e: "getitem d k = Inr e"
    and d': "d' = AList.update k (dict_update e kvs) d"
    by (cases "getitem d k") (auto simp: entry_update_def)
  from e have "k \<in> set (map fst d)"
    by (auto simp: getitem_def split: option.splits dest: map_of_SomeD intro: rev_image_eqI)
  then show ?thesis
    by (simp add: d' update_keys)
qed


lemma bnd_Inr_iff: "bnd m f = Inr y \<longleftrightarrow> (\<exists>x. m = Inr x \<and> f x = Inr y)"
  by (cases m) auto

text \<open>The loop of \<^verbatim>\<open>calc_uptime\<close> writes \<^verbatim>\<open>UPTIME\<close> of the Targets it visits, nothing else.\<close>

lemma calc_uptime_loop_step:
  "calc_uptime_loop clk cfg (t0 # ts) = Inr cfg' \<longleftrightarrow>
     (\<exists>s lf units cfg1.
        field cfg t0 (ustr ''LASTFAIL'') = Inr s \<and> strptime clk s = Some lf
      \<and> uptime_text (nat \<bar>now_us clk t0 - lf\<bar>) = Inr units
      \<and> entry_update cfg t0
           [(ustr ''UPTIME'',
             time_of_day clk t0 @ ustr '' UP (since last ping fail) for '' @ units)] = Inr cfg1
      \<and> calc_uptime_loop clk cfg1 ts = Inr cfg')"
  by (auto simp: bnd_Inr_iff split: option.splits)


lemma calc_uptime_loop_keys:
  "calc_uptime_loop clk cfg ts = Inr cfg' \<Longrightarrow> map fst cfg' = map fst cfg"
proof (induction ts arbitrary: cfg)
  case Nil
  then show ?case by simp
next
  case (Cons t0 ts)
  from Cons.prems obtain v cfg1 where
    step: "entry_update cfg t0 [(ustr ''UPTIME'', v)] = Inr cfg1"
    and rest: "calc_uptime_loop clk cfg1 ts = Inr cfg'"
    unfolding calc_uptime_loop_step by blast
  from Cons.IH [OF rest] keys_entry_update [OF step] show ?case
    by simp
qed












end
